theory Spec2Isabelle
  imports Main "HOL-Library.AList" "HOL-Library.Sublist"
begin

section \<open>Python values, exceptions and strings\<close>

text \<open>
  The server (\<^verbatim>\<open>src/main.py\<close>) is a set of four asynchronous handlers over a
  filesystem sandbox, a PostgreSQL database, a Redis cache and pandas. The handlers run
  one at a time, so each is modelled as a function from the state of the world to a
  result and the new state. A raised exception is the \<open>Inl\<close> of the result.

  A Python \<^verbatim>\<open>str\<close> is a \<open>string\<close>: one \<open>char\<close> per character (the
  characters with code point below 256). Tool arguments arrive as decoded JSON; floats
  are not modelled.
\<close>

datatype jvalue =
    JNull
  | JBool bool
  | JInt int
  | JStr string
  | JArr "jvalue list"
  | JObj "(string \<times> jvalue) list"

text \<open>
  The exceptions the handlers can raise. The argument is the message (for \<open>KeyError\<close>
  the missing key, for the \<open>OSError\<close> subclasses the file name). \<open>LibError\<close> is any
  exception raised inside psycopg2, redis or pandas, with its \<^verbatim>\<open>str(e)\<close>.
\<close>

datatype exn =
    KeyError string
  | ValueError string
  | TypeError string
  | AttributeError string
  | UnboundLocalError string
  | FileNotFoundError string
  | NotADirectoryError string
  | IsADirectoryError string
  | FileExistsError string
  | UnicodeDecodeError string
  | LibError string

definition sq :: string where
  "sq = [CHR 0x27]"

text \<open>\<^verbatim>\<open>str(e)\<close>, as the f-strings of the two \<^verbatim>\<open>except Exception as e\<close> blocks render it.\<close>

fun exn_str :: "exn \<Rightarrow> string" where
  "exn_str (KeyError k) = sq @ k @ sq"
| "exn_str (ValueError m) = m"
| "exn_str (TypeError m) = m"
| "exn_str (AttributeError m) = m"
| "exn_str (UnboundLocalError m) = m"
| "exn_str (FileNotFoundError f) = ''[Errno 2] No such file or directory: '' @ sq @ f @ sq"
| "exn_str (NotADirectoryError f) = ''[Errno 20] Not a directory: '' @ sq @ f @ sq"
| "exn_str (IsADirectoryError f) = ''[Errno 21] Is a directory: '' @ sq @ f @ sq"
| "exn_str (FileExistsError f) = ''[Errno 17] File exists: '' @ sq @ f @ sq"
| "exn_str (UnicodeDecodeError m) = m"
| "exn_str (LibError m) = m"

definition digit_char :: "nat \<Rightarrow> char" where
  "digit_char d = ''0123456789'' ! d"

fun str_nat :: "nat \<Rightarrow> string" where
  "str_nat n = (if n < 10 then [digit_char n] else str_nat (n div 10) @ [digit_char (n mod 10)])"

declare str_nat.simps [simp del]

definition str_int :: "int \<Rightarrow> string" where
  "str_int i = (if i < 0 then CHR ''-'' # str_nat (nat (- i)) else str_nat (nat i))"

text \<open>\<^verbatim>\<open>sep.join(ws)\<close> and \<^verbatim>\<open>s.split(d)\<close> for a one-character separator.\<close>

fun join :: "string \<Rightarrow> string list \<Rightarrow> string" where
  "join sep [] = []"
| "join sep [w] = w"
| "join sep (w # v # ws) = w @ sep @ join sep (v # ws)"

fun split_on :: "char \<Rightarrow> string \<Rightarrow> string list" where
  "split_on d [] = [[]]"
| "split_on d (c # cs) =
     (if c = d then [] # split_on d cs
      else (case split_on d cs of [] \<Rightarrow> [[c]] | w # ws \<Rightarrow> (c # w) # ws))"

text \<open>The format specifications \<^verbatim>\<open>{x:9}\<close> (pad on the right) and \<^verbatim>\<open>{x:>10}\<close> (pad on the left).\<close>

definition ljust :: "nat \<Rightarrow> string \<Rightarrow> string" where
  "ljust n s = s @ replicate (n - length s) CHR '' ''"

definition rjust :: "nat \<Rightarrow> string \<Rightarrow> string" where
  "rjust n s = replicate (n - length s) CHR '' '' @ s"

section \<open>pathlib\<close>

text \<open>
  A \<^verbatim>\<open>pathlib.PosixPath\<close>: whether it is anchored at the root, and its components
  without the root. The constructor drops empty components and \<^verbatim>\<open>.\<close> and keeps
  \<^verbatim>\<open>..\<close>. (A path that starts with exactly two slashes keeps them in pathlib; Linux
  resolves it as the path with one.)
\<close>

record ppath =
  absolute :: bool
  parts :: "string list"

definition Path :: "string \<Rightarrow> ppath" where
  "Path s = \<lparr>absolute = prefix ''/'' s,
             parts = filter (\<lambda>w. w \<noteq> [] \<and> w \<noteq> ''.'') (split_on CHR ''/'' s)\<rparr>"

definition path_str :: "ppath \<Rightarrow> string" where
  "path_str p =
     (if absolute p then CHR ''/'' # join ''/'' (parts p)
      else if parts p = [] then ''.'' else join ''/'' (parts p))"

text \<open>\<^verbatim>\<open>base / s\<close>: an absolute right operand replaces the base.\<close>

definition joinpath :: "ppath \<Rightarrow> string \<Rightarrow> ppath" where
  "joinpath base s =
     (let q = Path s in
      if absolute q then q else \<lparr>absolute = absolute base, parts = parts base @ parts q\<rparr>)"

definition parent :: "ppath \<Rightarrow> ppath" where
  "parent p = p\<lparr>parts := butlast (parts p)\<rparr>"

definition path_name :: "ppath \<Rightarrow> string" where
  "path_name p = (if parts p = [] then [] else last (parts p))"

text \<open>\<^verbatim>\<open>name.rfind('.')\<close> and \<^verbatim>\<open>Path.suffix\<close>: the last dot counts when it is neither
  the first nor the last character of the name.\<close>

definition rfind :: "char \<Rightarrow> string \<Rightarrow> nat option" where
  "rfind c s =
     (if c \<in> set s then Some (length s - 1 - length (takeWhile (\<lambda>x. x \<noteq> c) (rev s)))
      else None)"

definition path_suffix :: "ppath \<Rightarrow> string" where
  "path_suffix p =
     (let name = path_name p in
      case rfind CHR ''.'' name of
        None \<Rightarrow> []
      | Some i \<Rightarrow> if 0 < i \<and> i < length name - 1 then drop i name else [])"

text \<open>\<^verbatim>\<open>p.relative_to(base)\<close> for a path that \<^verbatim>\<open>base.rglob\<close> produced.\<close>

definition relative_to :: "ppath \<Rightarrow> ppath \<Rightarrow> ppath" where
  "relative_to p base = \<lparr>absolute = False, parts = drop (length (parts base)) (parts p)\<rparr>"

definition DATA_DIR :: ppath where
  "DATA_DIR = Path ''/app/data''"

section \<open>The filesystem\<close>

text \<open>
  The filesystem the handlers see: an association list from canonical paths (the names
  from the root \<^verbatim>\<open>/\<close> down) to entries; the first pair of a path counts. The root
  is a directory. A regular file holds either the UTF-8 encoding of a text or bytes that
  do not decode (of the given length). Symbolic links, permissions and I/O errors are not
  modelled; the locale's encoding is UTF-8 and the line separator is \<^verbatim>\<open>\n\<close>.
\<close>

datatype filedata = Text string | Binary nat

datatype entry = DirN | FileN filedata

type_synonym filesys = "(string list \<times> entry) list"

definition fs_lookup :: "filesys \<Rightarrow> string list \<Rightarrow> entry option" where
  "fs_lookup fs q = (if q = [] then Some DirN else map_of fs q)"

datatype errno = ENOENT | ENOTDIR | EISDIR | EEXIST

fun oserror :: "errno \<Rightarrow> ppath \<Rightarrow> exn" where
  "oserror ENOENT p = FileNotFoundError (path_str p)"
| "oserror ENOTDIR p = NotADirectoryError (path_str p)"
| "oserror EISDIR p = IsADirectoryError (path_str p)"
| "oserror EEXIST p = FileExistsError (path_str p)"

text \<open>
  The kernel's path walk: every component is looked up in a directory, and \<^verbatim>\<open>..\<close>
  steps to the parent. The result is the canonical path the last component names,
  which need not exist.
\<close>

fun walk :: "filesys \<Rightarrow> string list \<Rightarrow> string list \<Rightarrow> errno + string list" where
  "walk fs cur [] = Inr cur"
| "walk fs cur (c # cs) =
     (case fs_lookup fs cur of
        None \<Rightarrow> Inl ENOENT
      | Some (FileN d) \<Rightarrow> Inl ENOTDIR
      | Some DirN \<Rightarrow> walk fs (if c = ''..'' then butlast cur else cur @ [c]) cs)"

definition resolve :: "filesys \<Rightarrow> string list \<Rightarrow> ppath \<Rightarrow> errno + string list" where
  "resolve fs cwd p = walk fs (if absolute p then [] else cwd) (parts p)"

text \<open>Python refuses a path with a NUL character before any system call.\<close>

definition has_nul :: "ppath \<Rightarrow> bool" where
  "has_nul p = list_ex (\<lambda>w. CHR 0x00 \<in> set w) (parts p)"

definition null_byte :: exn where
  "null_byte = ValueError ''embedded null byte''"

definition os_stat :: "filesys \<Rightarrow> string list \<Rightarrow> ppath \<Rightarrow> exn + entry" where
  "os_stat fs cwd p =
     (if has_nul p then Inl null_byte
      else case resolve fs cwd p of
        Inl e \<Rightarrow> Inl (oserror e p)
      | Inr q \<Rightarrow> (case fs_lookup fs q of None \<Rightarrow> Inl (oserror ENOENT p) | Some e \<Rightarrow> Inr e))"

text \<open>\<^verbatim>\<open>Path.exists\<close>, \<^verbatim>\<open>is_dir\<close> and \<^verbatim>\<open>is_file\<close> answer False where \<^verbatim>\<open>stat\<close> fails
  with one of the errors of this model (pathlib raises the others again, a name that is
  too long for one).\<close>

definition path_exists :: "filesys \<Rightarrow> string list \<Rightarrow> ppath \<Rightarrow> bool" where
  "path_exists fs cwd p = (case os_stat fs cwd p of Inl e \<Rightarrow> False | Inr e \<Rightarrow> True)"

definition is_dir :: "filesys \<Rightarrow> string list \<Rightarrow> ppath \<Rightarrow> bool" where
  "is_dir fs cwd p = (case os_stat fs cwd p of Inr DirN \<Rightarrow> True | _ \<Rightarrow> False)"

definition is_file :: "filesys \<Rightarrow> string list \<Rightarrow> ppath \<Rightarrow> bool" where
  "is_file fs cwd p = (case os_stat fs cwd p of Inr (FileN d) \<Rightarrow> True | _ \<Rightarrow> False)"

text \<open>\<^verbatim>\<open>os.mkdir\<close>: the parent must be a directory and the name must be free.\<close>

definition os_mkdir :: "filesys \<Rightarrow> string list \<Rightarrow> ppath \<Rightarrow> exn + filesys" where
  "os_mkdir fs cwd p =
     (if has_nul p then Inl null_byte
      else case resolve fs cwd p of
        Inl e \<Rightarrow> Inl (oserror e p)
      | Inr q \<Rightarrow>
          if parts p = [] \<or> last (parts p) = ''..'' \<or> fs_lookup fs q \<noteq> None
          then Inl (oserror EEXIST p)
          else Inr (fs @ [(q, DirN)]))"

text \<open>
  \<^verbatim>\<open>Path.mkdir(parents=True, exist_ok=True)\<close>, as pathlib writes it: try
  \<^verbatim>\<open>os.mkdir\<close>; on FileNotFoundError make the parent first and try again; any other
  OSError is ignored when the path is a directory by then.
\<close>

function mkdir_parents :: "filesys \<Rightarrow> string list \<Rightarrow> ppath \<Rightarrow> exn + filesys" where
  "mkdir_parents fs cwd p =
     (case os_mkdir fs cwd p of
        Inr fs' \<Rightarrow> Inr fs'
      | Inl (FileNotFoundError f) \<Rightarrow>
          if parts p = [] then Inl (FileNotFoundError f)
          else (case mkdir_parents fs cwd (parent p) of
                  Inl e \<Rightarrow> Inl e
                | Inr fs1 \<Rightarrow>
                    (case os_mkdir fs1 cwd p of
                       Inr fs2 \<Rightarrow> Inr fs2
                     | Inl (FileNotFoundError g) \<Rightarrow> Inl (FileNotFoundError g)
                     | Inl (ValueError m) \<Rightarrow> Inl (ValueError m)
                     | Inl e \<Rightarrow> if is_dir fs1 cwd p then Inr fs1 else Inl e))
      | Inl (ValueError m) \<Rightarrow> Inl (ValueError m)
      | Inl e \<Rightarrow> if is_dir fs cwd p then Inr fs else Inl e)"
  by pat_completeness auto
termination
  by (relation "measure (\<lambda>(fs, cwd, p). length (parts p))") (auto simp: parent_def)

declare mkdir_parents.simps [simp del]

text \<open>
  \<^verbatim>\<open>open(p, 'w')\<close> creates or truncates the file and answers the canonical path that
  was opened; \<^verbatim>\<open>f.write(s)\<close> then appends \<open>s\<close> (the line separator is \<^verbatim>\<open>\n\<close>, so
  nothing is translated on the way out).
\<close>

definition open_w :: "filesys \<Rightarrow> string list \<Rightarrow> ppath \<Rightarrow> exn + (string list \<times> filesys)" where
  "open_w fs cwd p =
     (if has_nul p then Inl null_byte
      else case resolve fs cwd p of
        Inl e \<Rightarrow> Inl (oserror e p)
      | Inr q \<Rightarrow>
          if parts p = [] \<or> last (parts p) = ''..'' then Inl (oserror EISDIR p)
          else (case fs_lookup fs q of
                  Some DirN \<Rightarrow> Inl (oserror EISDIR p)
                | _ \<Rightarrow> Inr (q, AList.update q (FileN (Text [])) fs)))"

definition file_write :: "filesys \<Rightarrow> string list \<Rightarrow> string \<Rightarrow> filesys" where
  "file_write fs q s =
     (case map_of fs q of
        Some (FileN (Text t)) \<Rightarrow> AList.update q (FileN (Text (t @ s))) fs
      | _ \<Rightarrow> fs)"

text \<open>
  Reading in text mode with the default \<^verbatim>\<open>newline=None\<close>: the bytes are decoded, and
  \<^verbatim>\<open>\r\n\<close> and \<^verbatim>\<open>\r\<close> both become \<^verbatim>\<open>\n\<close> (universal newlines).
\<close>

fun universal_newlines :: "string \<Rightarrow> string" where
  "universal_newlines [] = []"
| "universal_newlines [c] = [if c = CHR 0x0D then CHR 0x0A else c]"
| "universal_newlines (c # d # cs) =
     (if c = CHR 0x0D \<and> d = CHR 0x0A then CHR 0x0A # universal_newlines cs
      else if c = CHR 0x0D then CHR 0x0A # universal_newlines (d # cs)
      else c # universal_newlines (d # cs))"

definition read_text :: "filesys \<Rightarrow> string list \<Rightarrow> ppath \<Rightarrow> exn + string" where
  "read_text fs cwd p =
     (case os_stat fs cwd p of
        Inl e \<Rightarrow> Inl e
      | Inr DirN \<Rightarrow> Inl (oserror EISDIR p)
      | Inr (FileN (Binary n)) \<Rightarrow> Inl (UnicodeDecodeError ''utf-8'')
      | Inr (FileN (Text s)) \<Rightarrow> Inr (universal_newlines s))"

text \<open>
  \<^verbatim>\<open>p.rglob("*")\<close>: every path below the directory \<open>p\<close>, in the order of the
  listing; nothing when \<open>p\<close> is not a directory. (pathlib yields the children of a
  directory before what is below them, each directory in the system's own order: a
  listing written in that order is enumerated as pathlib does.)
  \<^verbatim>\<open>p.iterdir()\<close>: the children of the directory, and NotADirectoryError on a file.
\<close>

definition rglob :: "filesys \<Rightarrow> string list \<Rightarrow> ppath \<Rightarrow> ppath list" where
  "rglob fs cwd p =
     (case resolve fs cwd p of
        Inl e \<Rightarrow> []
      | Inr q \<Rightarrow>
          if has_nul p \<or> fs_lookup fs q \<noteq> Some DirN then []
          else map (\<lambda>r. p\<lparr>parts := parts p @ drop (length q) r\<rparr>)
                 (filter (strict_prefix q) (remdups (map fst fs))))"

definition iterdir :: "filesys \<Rightarrow> string list \<Rightarrow> ppath \<Rightarrow> exn + ppath list" where
  "iterdir fs cwd p =
     (case os_stat fs cwd p of
        Inl e \<Rightarrow> Inl e
      | Inr (FileN d) \<Rightarrow> Inl (oserror ENOTDIR p)
      | Inr DirN \<Rightarrow>
          (case resolve fs cwd p of
             Inl e \<Rightarrow> Inl (oserror e p)
           | Inr q \<Rightarrow>
               Inr (map (\<lambda>r. p\<lparr>parts := parts p @ [last r]\<rparr>)
                      (filter (\<lambda>r. r \<noteq> [] \<and> butlast r = q) (remdups (map fst fs))))))"

text \<open>\<^verbatim>\<open>st_size\<close>: the number of bytes; a character from 128 on takes two in UTF-8.\<close>

definition st_size :: "filedata \<Rightarrow> nat" where
  "st_size d =
     (case d of
        Text s \<Rightarrow> length s + length (filter (\<lambda>c. 128 \<le> (of_char c :: nat)) s)
      | Binary n \<Rightarrow> n)"

section \<open>The libraries and the state of the world\<close>

text \<open>
  What psycopg2 hands back after \<^verbatim>\<open>cur.execute\<close>: the column names
  (\<^verbatim>\<open>cur.description\<close>, None for a statement without a result set), the rows and
  \<^verbatim>\<open>cur.rowcount\<close>. A database value is JSON-native or not; one that is not (a
  date, a decimal) is kept as its \<^verbatim>\<open>str\<close>, which is what
  \<^verbatim>\<open>json.dumps(..., default=str)\<close> writes for it.
\<close>

datatype sqlval = SNull | SBool bool | SInt int | SStr string | SOther string

record cursor =
  cur_description :: "string list option"
  cur_rows :: "sqlval list list"
  cur_rowcount :: int

text \<open>
  The libraries are parameters of the model; the handlers use nothing of them but
  these operations. \<open>'d\<close> is the state of the database, \<open>'r\<close> of the cache, \<open>'f\<close> a
  pandas DataFrame. An \<open>Inl\<close> (for \<open>pg_connect\<close>, a \<open>Some\<close>) is an exception raised
  inside the library, with its message.
  \<^item> \<open>pg_connect\<close>: \<^verbatim>\<open>psycopg2.connect(DATABASE_URL)\<close>;
  \<^item> \<open>pg_execute d query vars\<close>: \<^verbatim>\<open>cur.execute(query, vars)\<close> in a new transaction
    on \<open>d\<close> (\<open>JNull\<close> for no \<^verbatim>\<open>vars\<close>): the cursor and the uncommitted state;
  \<^item> \<open>pg_commit\<close>: \<^verbatim>\<open>conn.commit()\<close> of an uncommitted state; closing the
    connection without it leaves the database as it was;
  \<^item> \<open>redis_get\<close>, \<open>redis_setex r key ttl v\<close>: the calls of the same name;
  \<^item> \<open>json_dumps\<close>: \<^verbatim>\<open>json.dumps(v, indent=2)\<close>; \<open>py_repr\<close>: \<^verbatim>\<open>repr\<close> of a list or dict;
  \<^item> \<open>read_csv name e\<close>: \<^verbatim>\<open>pd.read_csv\<close> of the file named \<open>name\<close>, which is the
    entry \<open>e\<close>; the other six render a DataFrame;
  \<^item> \<open>url_path\<close>: what the \<^verbatim>\<open>Resource\<close> constructor of the MCP library, whose
    \<^verbatim>\<open>uri\<close> is a pydantic URL, stores for the path of a URI: it percent-encodes some
    characters (a space becomes \<^verbatim>\<open>%20\<close>).
\<close>

record ('d, 'r, 'f) libs =
  pg_connect :: "'d \<Rightarrow> string option"
  pg_execute :: "'d \<Rightarrow> jvalue \<Rightarrow> jvalue \<Rightarrow> string + cursor \<times> 'd"
  pg_commit :: "'d \<Rightarrow> string + 'd"
  redis_get :: "'r \<Rightarrow> jvalue \<Rightarrow> string + string option"
  redis_setex :: "'r \<Rightarrow> jvalue \<Rightarrow> jvalue \<Rightarrow> jvalue \<Rightarrow> string + 'r"
  json_dumps :: "jvalue \<Rightarrow> string"
  py_repr :: "jvalue \<Rightarrow> string"
  url_path :: "string \<Rightarrow> string"
  read_csv :: "string \<Rightarrow> entry \<Rightarrow> string + 'f"
  df_shape :: "'f \<Rightarrow> string"
  df_columns :: "'f \<Rightarrow> string"
  df_dtypes :: "'f \<Rightarrow> string"
  df_head :: "'f \<Rightarrow> string + string"
  df_info :: "'f \<Rightarrow> string + string"
  df_describe :: "'f \<Rightarrow> string + string"

text \<open>
  The state the handlers read and change: the filesystem and the working directory of
  the process, the committed database, the global \<^verbatim>\<open>redis_client\<close> (None until
  \<^verbatim>\<open>init_connections\<close> has run) and what \<^verbatim>\<open>logger.warning\<close> has written.
\<close>

record ('d, 'r) world =
  filesystem :: filesys
  workdir :: "string list"
  database :: 'd
  redis_client :: "'r option"
  warnings :: "string list"

text \<open>\<^verbatim>\<open>str(v)\<close> of an argument, as an f-string renders it.\<close>

definition py_str :: "('d, 'r, 'f) libs \<Rightarrow> jvalue \<Rightarrow> string" where
  "py_str L v =
     (case v of
        JNull \<Rightarrow> ''None''
      | JBool b \<Rightarrow> (if b then ''True'' else ''False'')
      | JInt i \<Rightarrow> str_int i
      | JStr s \<Rightarrow> s
      | _ \<Rightarrow> py_repr L v)"

definition lower_char :: "char \<Rightarrow> char" where
  "lower_char c =
     (let n = (of_char c :: nat) in
      if (65 \<le> n \<and> n \<le> 90) \<or> (192 \<le> n \<and> n \<le> 222 \<and> n \<noteq> 215) then char_of (n + 32) else c)"

definition lower :: "string \<Rightarrow> string" where
  "lower s = map lower_char s"

text \<open>A Python dict built from pairs: a key keeps its first place and its last value.\<close>

definition dict_of :: "('k \<times> 'v) list \<Rightarrow> ('k \<times> 'v) list" where
  "dict_of kvs = fold (\<lambda>(k, v). AList.update k v) kvs []"

fun to_json :: "sqlval \<Rightarrow> jvalue" where
  "to_json SNull = JNull"
| "to_json (SBool b) = JBool b"
| "to_json (SInt i) = JInt i"
| "to_json (SStr s) = JStr s"
| "to_json (SOther s) = JStr s"

text \<open>\<^verbatim>\<open>[dict(row) for row in rows]\<close> over a RealDictCursor, as the value \<^verbatim>\<open>json.dumps\<close>
  writes: each row is keyed by the column names.\<close>

definition row_dict :: "string list \<Rightarrow> sqlval list \<Rightarrow> jvalue" where
  "row_dict cols row = JObj (map (\<lambda>(k, v). (k, to_json v)) (dict_of (zip cols row)))"

definition rows_json :: "string list \<Rightarrow> sqlval list list \<Rightarrow> jvalue" where
  "rows_json cols rows = JArr (map (row_dict cols) rows)"

text \<open>\<^verbatim>\<open>cur.fetchall()\<close> raises ProgrammingError when the statement gave no result set.\<close>

definition fetchall :: "cursor \<Rightarrow> exn + string list \<times> sqlval list list" where
  "fetchall cur =
     (case cur_description cur of
        None \<Rightarrow> Inl (LibError ''no results to fetch'')
      | Some cols \<Rightarrow> Inr (cols, cur_rows cur))"

section \<open>Resources\<close>

text \<open>A \<^verbatim>\<open>Resource\<close>, with its fields \<^verbatim>\<open>uri\<close>, \<^verbatim>\<open>name\<close>, \<^verbatim>\<open>description\<close> and
  \<^verbatim>\<open>mimeType\<close>. The \<^verbatim>\<open>uri\<close> is the text of the URL the constructor stores: the
  scheme and the authority as they were given, and \<open>url_path\<close> of the path.\<close>

record resource =
  res_uri :: string
  res_name :: string
  res_description :: string
  res_mimeType :: string

definition nl :: string where
  "nl = [CHR 0x0A]"

text \<open>Lines 63 to 72 of \<^verbatim>\<open>handle_list_resources\<close>: the files under \<^verbatim>\<open>DATA_DIR\<close>.\<close>

definition file_resource :: "('d, 'r, 'f) libs \<Rightarrow> ppath \<Rightarrow> resource" where
  "file_resource L file_path =
     \<lparr>res_uri = ''file://'' @ url_path L (path_str file_path),
      res_name = path_name file_path,
      res_description = ''File: '' @ path_str (relative_to file_path DATA_DIR),
      res_mimeType = (if path_suffix file_path \<in> set [''.txt'', ''.csv'', ''.json'']
                  then ''text/plain'' else ''application/octet-stream'')\<rparr>"

definition list_file_resources ::
  "('d, 'r, 'f) libs \<Rightarrow> filesys \<Rightarrow> string list \<Rightarrow> resource list" where
  "list_file_resources L fs cwd =
     (if path_exists fs cwd DATA_DIR
      then map (file_resource L) (filter (is_file fs cwd) (rglob fs cwd DATA_DIR))
      else [])"

text \<open>
  Lines 74 to 95: the tables of the public schema. An exception anywhere in the
  \<^verbatim>\<open>try\<close> block ends it; what the loop had appended stays in \<^verbatim>\<open>resources\<close>. The
  functions answer the list and the exception that ended the block, if any.
\<close>

definition introspection_sql :: string where
  "introspection_sql =
     nl @ ''            SELECT table_name, table_type '' @
     nl @ ''            FROM information_schema.tables '' @
     nl @ ''            WHERE table_schema = '' @ sq @ ''public'' @ sq @
     nl @ ''        ''"

definition table_resource :: "('d, 'r, 'f) libs \<Rightarrow> string \<Rightarrow> string \<Rightarrow> resource" where
  "table_resource L table_name table_type =
     \<lparr>res_uri = ''db://table/'' @ url_path L table_name,
      res_name = table_name,
      res_description = ''Database '' @ lower table_type @ '': '' @ table_name,
      res_mimeType = ''application/x-sql''\<rparr>"

fun add_table_resources ::
  "('d, 'r, 'f) libs \<Rightarrow> resource list \<Rightarrow> sqlval list list \<Rightarrow> resource list \<times> exn option" where
  "add_table_resources L resources [] = (resources, None)"
| "add_table_resources L resources (row # rest) =
     (case row of
        [table_name, table_type] \<Rightarrow>
          (case table_type of
             SStr ty \<Rightarrow>
               (case table_name of
                  SStr tn \<Rightarrow> add_table_resources L (resources @ [table_resource L tn ty]) rest
                | _ \<Rightarrow> (resources, Some (LibError ''validation error for Resource'')))
           | _ \<Rightarrow> (resources, Some (AttributeError ''object has no attribute lower'')))
      | _ \<Rightarrow> (resources, Some (ValueError ''wrong number of values to unpack (expected 2)'')))"

definition list_table_resources ::
  "('d, 'r, 'f) libs \<Rightarrow> 'd \<Rightarrow> resource list \<Rightarrow> resource list \<times> exn option" where
  "list_table_resources L d resources =
     (case pg_connect L d of
        Some m \<Rightarrow> (resources, Some (LibError m))
      | None \<Rightarrow>
          (case pg_execute L d (JStr introspection_sql) JNull of
             Inl m \<Rightarrow> (resources, Some (LibError m))
           | Inr (cur, d') \<Rightarrow>
               (case fetchall cur of
                  Inl e \<Rightarrow> (resources, Some e)
                | Inr (cols, rows) \<Rightarrow> add_table_resources L resources rows)))"

definition handle_list_resources ::
  "('d, 'r, 'f) libs \<Rightarrow> ('d, 'r) world \<Rightarrow> (exn + resource list) \<times> ('d, 'r) world" where
  "handle_list_resources L w =
     (let resources = list_file_resources L (filesystem w) (workdir w) in
      case list_table_resources L (database w) resources of
        (resources', None) \<Rightarrow> (Inr resources', w)
      | (resources', Some e) \<Rightarrow>
          (Inr resources',
           w\<lparr>warnings := warnings w @ [''Could not list database tables: '' @ exn_str e]\<rparr>))"

definition handle_read_resource ::
  "('d, 'r, 'f) libs \<Rightarrow> string \<Rightarrow> ('d, 'r) world \<Rightarrow> (exn + string) \<times> ('d, 'r) world" where
  "handle_read_resource L uri w =
     (if prefix ''file://'' uri then
        (let file_path = Path (drop 7 uri) in
         if \<not> path_exists (filesystem w) (workdir w) file_path
         then (Inl (ValueError (''File not found: '' @ path_str file_path)), w)
         else (read_text (filesystem w) (workdir w) file_path, w))
      else if prefix ''db://table/'' uri then
        (let table_name = drop 11 uri in
         case pg_connect L (database w) of
           Some m \<Rightarrow> (Inl (LibError m), w)
         | None \<Rightarrow>
             (case pg_execute L (database w)
                     (JStr (''SELECT * FROM '' @ table_name @ '' LIMIT 100'')) JNull of
                Inl m \<Rightarrow> (Inl (LibError m), w)
              | Inr (cur, d') \<Rightarrow>
                  (case fetchall cur of
                     Inl e \<Rightarrow> (Inl e, w)
                   | Inr (cols, rows) \<Rightarrow> (Inr (json_dumps L (rows_json cols rows)), w))))
      else (Inl (ValueError (''Unsupported URI scheme: '' @ uri)), w))"

section \<open>Tools\<close>

text \<open>A \<^verbatim>\<open>Tool\<close> descriptor and a \<^verbatim>\<open>TextContent\<close> block.\<close>

datatype tool = Tool (tool_name: string) (tool_description: string) (inputSchema: jvalue)

datatype text_content = TextContent (content_type: string) (content_text: string)

definition handle_list_tools :: "tool list" where
  "handle_list_tools =
     [Tool ''write_file'' ''Write content to a file in the data directory''
       (JObj [(''type'', JStr ''object''),
        (''properties'', JObj [
          (''path'', JObj [(''type'', JStr ''string''), (''description'', JStr ''Relative path within the data directory'')]),
          (''content'', JObj [(''type'', JStr ''string''), (''description'', JStr ''Content to write to the file'')])]),
        (''required'', JArr [JStr ''path'', JStr ''content''])]),
      Tool ''execute_sql'' ''Execute a SQL query against the PostgreSQL database''
       (JObj [(''type'', JStr ''object''),
        (''properties'', JObj [
          (''query'', JObj [(''type'', JStr ''string''), (''description'', JStr ''SQL query to execute'')]),
          (''parameters'', JObj [(''type'', JStr ''array''), (''description'', JStr ''Query parameters''), (''items'', JObj [(''type'', JStr ''string'')])])]),
        (''required'', JArr [JStr ''query''])]),
      Tool ''cache_set'' ''Set a value in Redis cache''
       (JObj [(''type'', JStr ''object''),
        (''properties'', JObj [
          (''key'', JObj [(''type'', JStr ''string''), (''description'', JStr ''Cache key'')]),
          (''value'', JObj [(''type'', JStr ''string''), (''description'', JStr ''Value to cache'')]),
          (''ttl'', JObj [(''type'', JStr ''integer''), (''description'', JStr ''Time to live in seconds (optional)''), (''default'', JInt 3600)])]),
        (''required'', JArr [JStr ''key'', JStr ''value''])]),
      Tool ''cache_get'' ''Get a value from Redis cache''
       (JObj [(''type'', JStr ''object''),
        (''properties'', JObj [
          (''key'', JObj [(''type'', JStr ''string''), (''description'', JStr ''Cache key'')])]),
        (''required'', JArr [JStr ''key''])]),
      Tool ''list_directory'' ''List contents of a directory''
       (JObj [(''type'', JStr ''object''),
        (''properties'', JObj [
          (''path'', JObj [(''type'', JStr ''string''), (''description'', JStr ''Directory path (relative to data directory)''), (''default'', JStr ''.'')])])]),
      Tool ''analyze_data'' ''Perform basic analysis on CSV data files''
       (JObj [(''type'', JStr ''object''),
        (''properties'', JObj [
          (''file_path'', JObj [(''type'', JStr ''string''), (''description'', JStr ''Path to CSV file (relative to data directory)'')]),
          (''analysis_type'', JObj [(''type'', JStr ''string''), (''enum'', JArr [JStr ''summary'', JStr ''head'', JStr ''info'', JStr ''describe'']), (''description'', JStr ''Type of analysis to perform''), (''default'', JStr ''summary'')])]),
        (''required'', JArr [JStr ''file_path''])])]"

text \<open>
  \<^verbatim>\<open>handle_call_tool\<close>, one definition for each branch of its \<^verbatim>\<open>if\<close>/\<^verbatim>\<open>elif\<close>
  chain. \<^verbatim>\<open>arguments[k]\<close> raises KeyError on a missing key, and
  \<^verbatim>\<open>arguments.get(k, default)\<close> does not. \<^verbatim>\<open>DATA_DIR / path\<close> raises TypeError for a
  \<^verbatim>\<open>path\<close> that is not a string.
\<close>

definition not_a_path :: exn where
  "not_a_path = TypeError ''unsupported operand type(s) for /''"

text \<open>Lines 247 to 260, \<^verbatim>\<open>write_file\<close>. No exception is caught.\<close>

definition call_write_file ::
  "('d, 'r, 'f) libs \<Rightarrow> (string \<rightharpoonup> jvalue) \<Rightarrow> ('d, 'r) world
     \<Rightarrow> (exn + text_content list) \<times> ('d, 'r) world" where
  "call_write_file L arguments w =
     (case arguments ''path'' of
        None \<Rightarrow> (Inl (KeyError ''path''), w)
      | Some path \<Rightarrow>
     (case arguments ''content'' of
        None \<Rightarrow> (Inl (KeyError ''content''), w)
      | Some content \<Rightarrow>
     (case path of
        JStr p \<Rightarrow>
          (let file_path = joinpath DATA_DIR p in
           case mkdir_parents (filesystem w) (workdir w) (parent file_path) of
             Inl e \<Rightarrow> (Inl e, w)
           | Inr fs1 \<Rightarrow>
               (case open_w fs1 (workdir w) file_path of
                  Inl e \<Rightarrow> (Inl e, w\<lparr>filesystem := fs1\<rparr>)
                | Inr (q, fs2) \<Rightarrow>
                    (case content of
                       JStr c \<Rightarrow>
                         (Inr [TextContent ''text''
                                 (''Successfully wrote '' @ str_nat (length c)
                                  @ '' characters to '' @ p)],
                          w\<lparr>filesystem := file_write fs2 q c\<rparr>)
                     | _ \<Rightarrow>
                         (Inl (TypeError ''write() argument must be str''),
                          w\<lparr>filesystem := fs2\<rparr>))))
      | _ \<Rightarrow> (Inl not_a_path, w))))"

text \<open>
  Lines 262 to 284, \<^verbatim>\<open>execute_sql\<close>. \<^verbatim>\<open>if cur.description:\<close> is Python's truth
  test: None and the empty sequence are both false. The \<^verbatim>\<open>finally\<close> closes the
  connection, which drops what was not committed. \<open>sql_parameters\<close> is
  \<^verbatim>\<open>arguments.get("parameters", [])\<close>.
\<close>

definition sql_parameters :: "(string \<rightharpoonup> jvalue) \<Rightarrow> jvalue" where
  "sql_parameters arguments = (case arguments ''parameters'' of None \<Rightarrow> JArr [] | Some ps \<Rightarrow> ps)"

definition call_execute_sql ::
  "('d, 'r, 'f) libs \<Rightarrow> (string \<rightharpoonup> jvalue) \<Rightarrow> ('d, 'r) world
     \<Rightarrow> (exn + text_content list) \<times> ('d, 'r) world" where
  "call_execute_sql L arguments w =
     (case arguments ''query'' of
        None \<Rightarrow> (Inl (KeyError ''query''), w)
      | Some query \<Rightarrow>
          (let parameters = sql_parameters arguments in
           case pg_connect L (database w) of
             Some m \<Rightarrow> (Inl (LibError m), w)
           | None \<Rightarrow>
               (case pg_execute L (database w) query parameters of
                  Inl m \<Rightarrow> (Inl (LibError m), w)
                | Inr (cur, d') \<Rightarrow>
                    if cur_description cur \<noteq> None \<and> cur_description cur \<noteq> Some [] then
                      (case fetchall cur of
                         Inl e \<Rightarrow> (Inl e, w)
                       | Inr (cols, rows) \<Rightarrow>
                           (Inr [TextContent ''text'' (json_dumps L (rows_json cols rows))], w))
                    else
                      (case pg_commit L d' of
                         Inl m \<Rightarrow> (Inl (LibError m), w)
                       | Inr d'' \<Rightarrow>
                           (Inr [TextContent ''text''
                                   (''Query executed successfully. Rows affected: ''
                                    @ str_int (cur_rowcount cur))],
                            w\<lparr>database := d''\<rparr>)))))"

text \<open>Lines 286 to 304, \<^verbatim>\<open>cache_set\<close> and \<^verbatim>\<open>cache_get\<close>. No exception is caught.\<close>

definition no_client :: "string \<Rightarrow> exn" where
  "no_client attr =
     AttributeError (sq @ ''NoneType'' @ sq @ '' object has no attribute '' @ sq @ attr @ sq)"

definition call_cache_set ::
  "('d, 'r, 'f) libs \<Rightarrow> (string \<rightharpoonup> jvalue) \<Rightarrow> ('d, 'r) world
     \<Rightarrow> (exn + text_content list) \<times> ('d, 'r) world" where
  "call_cache_set L arguments w =
     (case arguments ''key'' of
        None \<Rightarrow> (Inl (KeyError ''key''), w)
      | Some key \<Rightarrow>
     (case arguments ''value'' of
        None \<Rightarrow> (Inl (KeyError ''value''), w)
      | Some val \<Rightarrow>
          (let ttl = (case arguments ''ttl'' of None \<Rightarrow> JInt 3600 | Some t \<Rightarrow> t) in
           case redis_client w of
             None \<Rightarrow> (Inl (no_client ''setex''), w)
           | Some r \<Rightarrow>
               (case redis_setex L r key ttl val of
                  Inl m \<Rightarrow> (Inl (LibError m), w)
                | Inr r' \<Rightarrow>
                    (Inr [TextContent ''text''
                            (''Set cache key '' @ sq @ py_str L key @ sq @ '' with TTL ''
                             @ py_str L ttl @ '' seconds'')],
                     w\<lparr>redis_client := Some r'\<rparr>)))))"

definition call_cache_get ::
  "('d, 'r, 'f) libs \<Rightarrow> (string \<rightharpoonup> jvalue) \<Rightarrow> ('d, 'r) world
     \<Rightarrow> (exn + text_content list) \<times> ('d, 'r) world" where
  "call_cache_get L arguments w =
     (case arguments ''key'' of
        None \<Rightarrow> (Inl (KeyError ''key''), w)
      | Some key \<Rightarrow>
          (case redis_client w of
             None \<Rightarrow> (Inl (no_client ''get''), w)
           | Some r \<Rightarrow>
               (case redis_get L r key of
                  Inl m \<Rightarrow> (Inl (LibError m), w)
                | Inr None \<Rightarrow>
                    (Inr [TextContent ''text''
                            (''Cache key '' @ sq @ py_str L key @ sq @ '' not found'')], w)
                | Inr (Some v) \<Rightarrow>
                    (Inr [TextContent ''text''
                            (''Cache value for '' @ sq @ py_str L key @ sq @ '': '' @ v)], w))))"

text \<open>Lines 306 to 320, \<^verbatim>\<open>list_directory\<close>. Only the missing directory is caught.\<close>

definition directory_line :: "filesys \<Rightarrow> string list \<Rightarrow> ppath \<Rightarrow> string" where
  "directory_line fs cwd item =
     (let item_type = (if is_dir fs cwd item then ''directory'' else ''file'');
          size = (case os_stat fs cwd item of
                    Inr (FileN d) \<Rightarrow> str_nat (st_size d)
                  | _ \<Rightarrow> ''-'')
      in ljust 9 item_type @ '' '' @ rjust 10 size @ '' '' @ path_name item)"

definition call_list_directory ::
  "('d, 'r, 'f) libs \<Rightarrow> (string \<rightharpoonup> jvalue) \<Rightarrow> ('d, 'r) world
     \<Rightarrow> (exn + text_content list) \<times> ('d, 'r) world" where
  "call_list_directory L arguments w =
     (let path = (case arguments ''path'' of None \<Rightarrow> JStr ''.'' | Some v \<Rightarrow> v) in
      case path of
        JStr p \<Rightarrow>
          (let dir_path = joinpath DATA_DIR p in
           if \<not> path_exists (filesystem w) (workdir w) dir_path
           then (Inr [TextContent ''text'' (''Directory not found: '' @ p)], w)
           else (case iterdir (filesystem w) (workdir w) dir_path of
                   Inl e \<Rightarrow> (Inl e, w)
                 | Inr items \<Rightarrow>
                     (Inr [TextContent ''text''
                             (join nl ([''Type      Size       Name''] @ [replicate 30 CHR ''-'']
                                       @ map (directory_line (filesystem w) (workdir w)) items))],
                      w)))
      | _ \<Rightarrow> (Inl not_a_path, w))"

text \<open>
  Lines 322 to 351, \<^verbatim>\<open>analyze_data\<close>. \<open>analyze\<close> is the body of the \<^verbatim>\<open>try\<close>:
  when no branch of the chain matches, \<^verbatim>\<open>result\<close> was never assigned and the
  \<^verbatim>\<open>return\<close> raises UnboundLocalError. The \<^verbatim>\<open>except Exception\<close> turns every
  exception of the body into text.
\<close>

definition unbound_result :: exn where
  "unbound_result =
     UnboundLocalError (''cannot access local variable '' @ sq @ ''result'' @ sq
                        @ '' where it is not associated with a value'')"

definition lib :: "string + 'a \<Rightarrow> exn + 'a" where
  "lib r = (case r of Inl m \<Rightarrow> Inl (LibError m) | Inr x \<Rightarrow> Inr x)"

definition analyze ::
  "('d, 'r, 'f) libs \<Rightarrow> filesys \<Rightarrow> string list \<Rightarrow> string \<Rightarrow> ppath \<Rightarrow> jvalue \<Rightarrow> exn + string" where
  "analyze L fs cwd file_path full_path analysis_type =
     (case os_stat fs cwd full_path of
        Inl e \<Rightarrow> Inl e
      | Inr ent \<Rightarrow>
          (case lib (read_csv L (path_str full_path) ent) of
             Inl e \<Rightarrow> Inl e
           | Inr df \<Rightarrow>
               if analysis_type = JStr ''summary'' then
                 Inr (''Dataset Summary for '' @ file_path @ '':'' @ nl
                      @ ''Shape: '' @ df_shape L df @ nl
                      @ ''Columns: '' @ df_columns L df @ nl
                      @ ''Data types:'' @ nl @ df_dtypes L df)
               else if analysis_type = JStr ''head'' then
                 (case lib (df_head L df) of
                    Inl e \<Rightarrow> Inl e
                  | Inr t \<Rightarrow> Inr (''First 10 rows of '' @ file_path @ '':'' @ nl @ t))
               else if analysis_type = JStr ''info'' then
                 (case lib (df_info L df) of
                    Inl e \<Rightarrow> Inl e
                  | Inr t \<Rightarrow> Inr (''Dataset info for '' @ file_path @ '':'' @ nl @ t))
               else if analysis_type = JStr ''describe'' then
                 (case lib (df_describe L df) of
                    Inl e \<Rightarrow> Inl e
                  | Inr t \<Rightarrow> Inr (''Statistical summary for '' @ file_path @ '':'' @ nl @ t))
               else Inl unbound_result))"

definition call_analyze_data ::
  "('d, 'r, 'f) libs \<Rightarrow> (string \<rightharpoonup> jvalue) \<Rightarrow> ('d, 'r) world
     \<Rightarrow> (exn + text_content list) \<times> ('d, 'r) world" where
  "call_analyze_data L arguments w =
     (case arguments ''file_path'' of
        None \<Rightarrow> (Inl (KeyError ''file_path''), w)
      | Some fp \<Rightarrow>
          (let analysis_type =
                 (case arguments ''analysis_type'' of None \<Rightarrow> JStr ''summary'' | Some t \<Rightarrow> t) in
           case fp of
             JStr file_path \<Rightarrow>
               (let full_path = joinpath DATA_DIR file_path in
                if \<not> path_exists (filesystem w) (workdir w) full_path
                then (Inr [TextContent ''text'' (''File not found: '' @ file_path)], w)
                else (case analyze L (filesystem w) (workdir w) file_path full_path analysis_type of
                        Inr result \<Rightarrow> (Inr [TextContent ''text'' result], w)
                      | Inl e \<Rightarrow>
                          (Inr [TextContent ''text'' (''Error analyzing data: '' @ exn_str e)], w)))
           | _ \<Rightarrow> (Inl not_a_path, w)))"

definition handle_call_tool ::
  "('d, 'r, 'f) libs \<Rightarrow> string \<Rightarrow> (string \<rightharpoonup> jvalue) \<Rightarrow> ('d, 'r) world
     \<Rightarrow> (exn + text_content list) \<times> ('d, 'r) world" where
  "handle_call_tool L name arguments w =
     (if name = ''write_file'' then call_write_file L arguments w
      else if name = ''execute_sql'' then call_execute_sql L arguments w
      else if name = ''cache_set'' then call_cache_set L arguments w
      else if name = ''cache_get'' then call_cache_get L arguments w
      else if name = ''list_directory'' then call_list_directory L arguments w
      else if name = ''analyze_data'' then call_analyze_data L arguments w
      else (Inl (ValueError (''Unknown tool: '' @ name)), w))"

section \<open>A small instance of the libraries\<close>

text \<open>
  An instance to run the handlers on. The database is a list of named tables of one
  integer column \<open>n\<close>. It answers the catalogue query with every table, as a base
  table; it reads a table for \<^verbatim>\<open>SELECT * FROM t LIMIT 100\<close>, folding the unquoted
  name \<open>t\<close> to lower case as PostgreSQL does; it empties a table for
  \<^verbatim>\<open>DELETE FROM t\<close>; everything else is a syntax error. An empty database refuses the
  connection. The cache is an association list with string keys; a CSV file is parsed
  into its lines of cells. Of the characters a URL encodes, the instance has the space.
\<close>

definition dq :: string where
  "dq = [CHR 0x22]"

fun demo_dumps :: "jvalue \<Rightarrow> string" where
  "demo_dumps JNull = ''null''"
| "demo_dumps (JBool b) = (if b then ''true'' else ''false'')"
| "demo_dumps (JInt i) = str_int i"
| "demo_dumps (JStr s) = dq @ s @ dq"
| "demo_dumps (JArr vs) = ''['' @ join '', '' (map demo_dumps vs) @ '']''"
| "demo_dumps (JObj kvs) =
     ''{'' @ join '', '' (map (\<lambda>kv. dq @ fst kv @ dq @ '': '' @ demo_dumps (snd kv)) kvs) @ ''}''"

definition demo_select :: "(string \<times> int list) list \<Rightarrow> string \<Rightarrow> string + cursor" where
  "demo_select d q =
     (let t = lower (take (length q - 24) (drop 14 q)) in
      case map_of d t of
        None \<Rightarrow> Inl (''relation '' @ dq @ t @ dq @ '' does not exist'')
      | Some ns \<Rightarrow>
          Inr \<lparr>cur_description = Some [''n''],
               cur_rows = map (\<lambda>n. [SInt n]) (take 100 ns),
               cur_rowcount = int (length (take 100 ns))\<rparr>)"

definition demo_execute ::
  "(string \<times> int list) list \<Rightarrow> jvalue \<Rightarrow> jvalue
     \<Rightarrow> string + cursor \<times> (string \<times> int list) list" where
  "demo_execute d query vars =
     (case query of
        JStr q \<Rightarrow>
          if q = introspection_sql then
            Inr (\<lparr>cur_description = Some [''table_name'', ''table_type''],
                  cur_rows = map (\<lambda>t. [SStr (fst t), SStr ''BASE TABLE'']) d,
                  cur_rowcount = int (length d)\<rparr>, d)
          else if prefix ''SELECT * FROM '' q \<and> suffix '' LIMIT 100'' q \<and> 24 \<le> length q then
            (case demo_select d q of Inl m \<Rightarrow> Inl m | Inr cur \<Rightarrow> Inr (cur, d))
          else if prefix ''DELETE FROM '' q then
            (case map_of d (lower (drop 12 q)) of
               None \<Rightarrow> Inl ''relation does not exist''
             | Some ns \<Rightarrow>
                 Inr (\<lparr>cur_description = None, cur_rows = [], cur_rowcount = int (length ns)\<rparr>,
                      AList.update (lower (drop 12 q)) [] d))
          else Inl ''syntax error''
      | _ \<Rightarrow> Inl ''argument 1 must be a string'')"

definition demo_get :: "(string \<times> string) list \<Rightarrow> jvalue \<Rightarrow> string + string option" where
  "demo_get r key = (case key of JStr k \<Rightarrow> Inr (map_of r k) | _ \<Rightarrow> Inl ''Invalid input'')"

definition demo_setex ::
  "(string \<times> string) list \<Rightarrow> jvalue \<Rightarrow> jvalue \<Rightarrow> jvalue \<Rightarrow> string + (string \<times> string) list" where
  "demo_setex r key ttl v =
     (case (key, ttl, v) of
        (JStr k, JInt t, JStr x) \<Rightarrow>
          if 0 < t then Inr (AList.update k x r) else Inl ''invalid expire time in setex''
      | _ \<Rightarrow> Inl ''Invalid input'')"

definition demo_read_csv :: "string \<Rightarrow> entry \<Rightarrow> string + string list list" where
  "demo_read_csv f e =
     (case e of
        FileN (Text s) \<Rightarrow>
          if s = [] then Inl ''No columns to parse from file''
          else Inr (map (split_on CHR '','') (split_on CHR 0x0A s))
      | FileN (Binary n) \<Rightarrow> Inl ''codec cannot decode''
      | DirN \<Rightarrow> Inl (''Is a directory: '' @ f))"

definition demo_url_path :: "string \<Rightarrow> string" where
  "demo_url_path s = concat (map (\<lambda>c. if c = CHR '' '' then ''%20'' else [c]) s)"

definition demo_libs ::
  "((string \<times> int list) list, (string \<times> string) list, string list list) libs" where
  "demo_libs =
     \<lparr>pg_connect = (\<lambda>d. if d = [] then Some ''connection refused'' else None),
      pg_execute = demo_execute,
      pg_commit = Inr,
      redis_get = demo_get,
      redis_setex = demo_setex,
      json_dumps = demo_dumps,
      py_repr = demo_dumps,
      url_path = demo_url_path,
      read_csv = demo_read_csv,
      df_shape = (\<lambda>df. ''('' @ str_nat (length df - 1) @ '', '' @ str_nat (length (hd df)) @ '')''),
      df_columns = (\<lambda>df. ''['' @ join '', '' (hd df) @ '']''),
      df_dtypes = (\<lambda>df. join nl (map (\<lambda>c. c @ '' object'') (hd df))),
      df_head = (\<lambda>df. Inr (join nl (map (join '' '') (take 11 df)))),
      df_info = (\<lambda>df. Inr (str_nat (length df - 1) @ '' entries'')),
      df_describe = (\<lambda>df. if length df < 2 then Inl ''Cannot describe an empty DataFrame''
                            else Inr (''count '' @ str_nat (length df - 1)))\<rparr>"

text \<open>
  A world to run them in: under \<^verbatim>\<open>/app/data\<close> a text file, an image, a text file
  with a space in its name, and a CSV file with Windows line ends in a subdirectory; two
  tables, one created with a quoted
  mixed-case name; one cache entry.
\<close>

definition demo_fs :: filesys where
  "demo_fs =
     [([''app''], DirN),
      ([''app'', ''data''], DirN),
      ([''app'', ''data'', ''notes.txt''], FileN (Text ''hello'')),
      ([''app'', ''data'', ''sub''], DirN),
      ([''app'', ''data'', ''logo.png''], FileN (Binary 4)),
      ([''app'', ''data'', ''my file.txt''], FileN (Text ''hi'')),
      ([''app'', ''data'', ''sub'', ''t.csv''],
         FileN (Text (''a,b'' @ [CHR 0x0D, CHR 0x0A] @ ''1,2'')))]"

definition demo_world :: "((string \<times> int list) list, (string \<times> string) list) world" where
  "demo_world =
     \<lparr>filesystem = demo_fs,
      workdir = [''app''],
      database = [(''users'', [1, 2]), (''Orders'', [7])],
      redis_client = Some [(''k'', ''v'')],
      warnings = []\<rparr>"

section \<open>Predicates the properties use\<close>

text \<open>The exceptions the filesystem operations raise: the four OSErrors, and the
  ValueError for a NUL character in a path.\<close>

definition fs_error :: "exn \<Rightarrow> bool" where
  "fs_error e =
     (case e of
        FileNotFoundError f \<Rightarrow> True
      | NotADirectoryError f \<Rightarrow> True
      | IsADirectoryError f \<Rightarrow> True
      | FileExistsError f \<Rightarrow> True
      | ValueError m \<Rightarrow> m = ''embedded null byte''
      | _ \<Rightarrow> False)"

text \<open>The catalogue query of \<^verbatim>\<open>handle_list_resources\<close> fails: the connection is
  refused, the query raises, or it gives no result set to fetch.\<close>

definition introspection_fails :: "('d, 'r, 'f) libs \<Rightarrow> 'd \<Rightarrow> bool" where
  "introspection_fails L d =
     (case pg_connect L d of
        Some m \<Rightarrow> True
      | None \<Rightarrow>
          (case pg_execute L d (JStr introspection_sql) JNull of
             Inl m \<Rightarrow> True
           | Inr (cur, d') \<Rightarrow> cur_description cur = None))"

text \<open>The keys of a JSON object.\<close>

fun object_keys :: "jvalue \<Rightarrow> string set" where
  "object_keys (JObj kvs) = fst ` set kvs"
| "object_keys v = {}"







section \<open>What the filesystem operations raise\<close>

lemma fs_error_simps [simp]:
  "fs_error (FileNotFoundError f)" "fs_error (NotADirectoryError f)"
  "fs_error (IsADirectoryError f)" "fs_error (FileExistsError f)"
  "fs_error (ValueError m) = (m = ''embedded null byte'')"
  "\<not> fs_error (KeyError k)" "\<not> fs_error (TypeError m)" "\<not> fs_error (AttributeError m)"
  "\<not> fs_error (UnboundLocalError m)" "\<not> fs_error (UnicodeDecodeError m)"
  "\<not> fs_error (LibError m)"
  by (simp_all add: fs_error_def)

lemma oserror_fs_error [simp]: "fs_error (oserror e p)"
  by (cases e) simp_all

lemma null_byte_fs_error [simp]: "fs_error null_byte"
  by (simp add: null_byte_def)

lemma os_stat_error: "os_stat fs cwd p = Inl e \<Longrightarrow> fs_error e"
  by (auto simp: os_stat_def split: if_splits sum.splits option.splits)

lemma os_mkdir_error: "os_mkdir fs cwd p = Inl e \<Longrightarrow> fs_error e"
  by (auto simp: os_mkdir_def split: if_splits sum.splits option.splits)

lemma open_w_error: "open_w fs cwd p = Inl e \<Longrightarrow> fs_error e"
  by (auto simp: open_w_def split: if_splits sum.splits option.splits entry.splits)

lemma iterdir_error: "iterdir fs cwd p = Inl e \<Longrightarrow> fs_error e"
  by (auto simp: iterdir_def split: if_splits sum.splits option.splits entry.splits dest: os_stat_error)

lemma mkdir_parents_error: "mkdir_parents fs cwd p = Inl e \<Longrightarrow> fs_error e"
proof (induction fs cwd p arbitrary: e rule: mkdir_parents.induct)
  case (1 fs cwd p)
  show ?case
  proof (cases "os_mkdir fs cwd p")
    case (Inr fs')
    with "1.prems" show ?thesis by (simp add: mkdir_parents.simps [of fs cwd p])
  next
    case (Inl x)
    then have fx: "fs_error x" by (rule os_mkdir_error)
    show ?thesis
    proof (cases "\<exists>f. x = FileNotFoundError f \<and> parts p \<noteq> []")
      case False
      with "1.prems" Inl fx show ?thesis
        by (cases x) (auto simp: mkdir_parents.simps [of fs cwd p] split: if_splits)
    next
      case True
      then obtain f where x: "x = FileNotFoundError f" and ne: "parts p \<noteq> []" by blast
      show ?thesis
      proof (cases "mkdir_parents fs cwd (parent p)")
        case (Inl e')
        from "1.IH" [OF \<open>os_mkdir fs cwd p = Inl x\<close> x ne Inl] have "fs_error e'" .
        with Inl x \<open>os_mkdir fs cwd p = Inl x\<close> "1.prems" ne
        show ?thesis by (simp add: mkdir_parents.simps [of fs cwd p])
      next
        case (Inr fs1)
        with x \<open>os_mkdir fs cwd p = Inl x\<close> "1.prems" ne
        show ?thesis
          by (auto simp: mkdir_parents.simps [of fs cwd p] split: sum.splits exn.splits if_splits
                   dest: os_mkdir_error)
      qed
    qed
  qed
qed

lemma fs_error_not_unknown: "fs_error e \<Longrightarrow> e \<noteq> ValueError (''Unknown tool: '' @ n)"
  by auto

section \<open>Every result of the dispatcher is one text block\<close>

lemma call_write_file_shape:
  "call_write_file L arguments w = (Inr res, w') \<Longrightarrow> \<exists>t. res = [TextContent ''text'' t]"
  by (auto simp: call_write_file_def Let_def
           split: option.splits jvalue.splits sum.splits prod.splits)

lemma call_execute_sql_shape:
  "call_execute_sql L arguments w = (Inr res, w') \<Longrightarrow> \<exists>t. res = [TextContent ''text'' t]"
  by (auto simp: call_execute_sql_def Let_def
           split: option.splits sum.splits prod.splits if_splits)

lemma call_cache_set_shape:
  "call_cache_set L arguments w = (Inr res, w') \<Longrightarrow> \<exists>t. res = [TextContent ''text'' t]"
  by (auto simp: call_cache_set_def Let_def split: option.splits sum.splits)

lemma call_cache_get_shape:
  "call_cache_get L arguments w = (Inr res, w') \<Longrightarrow> \<exists>t. res = [TextContent ''text'' t]"
  by (auto simp: call_cache_get_def split: option.splits sum.splits)

lemma call_list_directory_shape:
  "call_list_directory L arguments w = (Inr res, w') \<Longrightarrow> \<exists>t. res = [TextContent ''text'' t]"
  by (auto simp: call_list_directory_def Let_def
           split: option.splits jvalue.splits sum.splits if_splits)

lemma call_analyze_data_shape:
  "call_analyze_data L arguments w = (Inr res, w') \<Longrightarrow> \<exists>t. res = [TextContent ''text'' t]"
  by (auto simp: call_analyze_data_def Let_def
           split: option.splits jvalue.splits sum.splits if_splits)

text \<open>
  C4. Whenever \<^verbatim>\<open>call_tool\<close> returns instead of raising, for any tool name and any
  arguments, its result is a list of exactly one content block, and that block is a text
  block. The soft failures (a missing file or directory, a failed analysis) are such
  results too.
\<close>

theorem call_tool_one_text_block:
  assumes "handle_call_tool L name arguments w = (Inr res, w')"
  shows "\<exists>t. res = [TextContent ''text'' t]"
  using assms
  by (auto simp: handle_call_tool_def split: if_splits
           dest: call_write_file_shape call_execute_sql_shape call_cache_set_shape
                 call_cache_get_shape call_list_directory_shape call_analyze_data_shape)

theorem call_tool_one_text_block_witness:
  "handle_call_tool demo_libs ''analyze_data'' [''file_path'' \<mapsto> JStr ''nope.csv''] demo_world
     = (Inr [TextContent ''text'' ''File not found: nope.csv''], demo_world)
   \<and> (\<exists>t. [TextContent ''text'' ''File not found: nope.csv''] = [TextContent ''text'' t])"
proof -
  have run: "handle_call_tool demo_libs ''analyze_data'' [''file_path'' \<mapsto> JStr ''nope.csv''] demo_world
     = (Inr [TextContent ''text'' ''File not found: nope.csv''], demo_world)"
    by (simp add: handle_call_tool_def call_analyze_data_def joinpath_def Path_def DATA_DIR_def
          path_exists_def os_stat_def has_nul_def resolve_def fs_lookup_def demo_world_def demo_fs_def)
  from call_tool_one_text_block [OF run] run show ?thesis by simp
qed

section \<open>Reading a resource of an unknown scheme\<close>

text \<open>
  C8. A URI that starts with neither \<^verbatim>\<open>file://\<close> nor \<^verbatim>\<open>db://table/\<close> makes
  \<^verbatim>\<open>read_resource\<close> raise the ValueError "Unsupported URI scheme"; it returns no
  string and changes nothing.
\<close>

theorem read_resource_unsupported_scheme:
  assumes "\<not> prefix ''file://'' uri" and "\<not> prefix ''db://table/'' uri"
  shows "handle_read_resource L uri w = (Inl (ValueError (''Unsupported URI scheme: '' @ uri)), w)"
  using assms by (simp add: handle_read_resource_def)

theorem read_resource_unsupported_scheme_witness:
  "\<not> prefix ''file://'' ''http://example.org/a.txt''
   \<and> \<not> prefix ''db://table/'' ''http://example.org/a.txt''
   \<and> handle_read_resource demo_libs ''http://example.org/a.txt'' demo_world
       = (Inl (ValueError ''Unsupported URI scheme: http://example.org/a.txt''), demo_world)"
  using read_resource_unsupported_scheme [of "''http://example.org/a.txt''" demo_libs demo_world]
  by simp

section \<open>The one failure of the dispatch itself\<close>

lemma call_write_file_error:
  "call_write_file L arguments w = (Inl e, w') \<Longrightarrow> e \<noteq> ValueError (''Unknown tool: '' @ n)"
  by (auto simp: call_write_file_def Let_def not_a_path_def
           split: option.splits jvalue.splits sum.splits prod.splits
           dest!: mkdir_parents_error open_w_error)

lemma call_execute_sql_error:
  "call_execute_sql L arguments w = (Inl e, w') \<Longrightarrow> e \<noteq> ValueError (''Unknown tool: '' @ n)"
  by (auto simp: call_execute_sql_def Let_def fetchall_def
           split: option.splits sum.splits prod.splits if_splits)

lemma call_cache_set_error:
  "call_cache_set L arguments w = (Inl e, w') \<Longrightarrow> e \<noteq> ValueError (''Unknown tool: '' @ n)"
  by (auto simp: call_cache_set_def Let_def no_client_def split: option.splits sum.splits)

lemma call_cache_get_error:
  "call_cache_get L arguments w = (Inl e, w') \<Longrightarrow> e \<noteq> ValueError (''Unknown tool: '' @ n)"
  by (auto simp: call_cache_get_def no_client_def split: option.splits sum.splits)

lemma call_list_directory_error:
  "call_list_directory L arguments w = (Inl e, w') \<Longrightarrow> e \<noteq> ValueError (''Unknown tool: '' @ n)"
  by (auto simp: call_list_directory_def Let_def not_a_path_def
           split: option.splits jvalue.splits sum.splits if_splits dest!: iterdir_error)

lemma call_analyze_data_error:
  "call_analyze_data L arguments w = (Inl e, w') \<Longrightarrow> e \<noteq> ValueError (''Unknown tool: '' @ n)"
  by (auto simp: call_analyze_data_def Let_def not_a_path_def
           split: option.splits jvalue.splits sum.splits if_splits)

lemma tool_names: "map tool_name handle_list_tools =
  [''write_file'', ''execute_sql'', ''cache_set'', ''cache_get'', ''list_directory'', ''analyze_data'']"
  by (simp add: handle_list_tools_def)

lemma dispatch:
  "handle_call_tool L ''write_file'' a w = call_write_file L a w"
  "handle_call_tool L ''execute_sql'' a w = call_execute_sql L a w"
  "handle_call_tool L ''cache_set'' a w = call_cache_set L a w"
  "handle_call_tool L ''cache_get'' a w = call_cache_get L a w"
  "handle_call_tool L ''list_directory'' a w = call_list_directory L a w"
  "handle_call_tool L ''analyze_data'' a w = call_analyze_data L a w"
  by (simp_all add: handle_call_tool_def)

lemma dispatch_unknown:
  "name \<notin> set (map tool_name handle_list_tools) \<Longrightarrow>
   handle_call_tool L name a w = (Inl (ValueError (''Unknown tool: '' @ name)), w)"
  unfolding tool_names by (simp add: handle_call_tool_def)

lemma registered_cases:
  "name \<in> set (map tool_name handle_list_tools) \<Longrightarrow>
   name = ''write_file'' \<or> name = ''execute_sql'' \<or> name = ''cache_set''
   \<or> name = ''cache_get'' \<or> name = ''list_directory'' \<or> name = ''analyze_data''"
  unfolding tool_names by simp

text \<open>
  C1, as the code has it. \<^verbatim>\<open>call_tool\<close> raises the ValueError "Unknown tool" exactly
  when the name is not one of the six names of the tool catalogue. A call with one of the
  six names never raises it. Such a call can still raise: KeyError for a required
  argument that is missing, TypeError for a path that is not a string, and whatever the
  filesystem, the database or the cache raise in \<^verbatim>\<open>write_file\<close>,
  \<^verbatim>\<open>execute_sql\<close>, \<^verbatim>\<open>cache_set\<close>, \<^verbatim>\<open>cache_get\<close> and \<^verbatim>\<open>list_directory\<close>,
  where nothing is caught. The counterexample below has two such calls:
  \<^verbatim>\<open>list_directory\<close> on a regular file, and \<^verbatim>\<open>cache_get\<close> without its key.
\<close>

theorem unknown_tool_iff:
  "(\<exists>w'. handle_call_tool L name arguments w = (Inl (ValueError (''Unknown tool: '' @ name)), w'))
     \<longleftrightarrow> name \<notin> set (map tool_name handle_list_tools)"
proof
  assume "\<exists>w'. handle_call_tool L name arguments w = (Inl (ValueError (''Unknown tool: '' @ name)), w')"
  then obtain w' where
    r: "handle_call_tool L name arguments w = (Inl (ValueError (''Unknown tool: '' @ name)), w')" ..
  show "name \<notin> set (map tool_name handle_list_tools)"
  proof
    assume "name \<in> set (map tool_name handle_list_tools)"
    then have "name = ''write_file'' \<or> name = ''execute_sql'' \<or> name = ''cache_set''
      \<or> name = ''cache_get'' \<or> name = ''list_directory'' \<or> name = ''analyze_data''"
      by (rule registered_cases)
    then show False
    proof (elim disjE)
      assume n: "name = ''write_file''"
      from r have "call_write_file L arguments w = (Inl (ValueError (''Unknown tool: '' @ name)), w')"
        unfolding n by (simp only: dispatch)
      from call_write_file_error [OF this, of name] show False by simp
    next
      assume n: "name = ''execute_sql''"
      from r have "call_execute_sql L arguments w = (Inl (ValueError (''Unknown tool: '' @ name)), w')"
        unfolding n by (simp only: dispatch)
      from call_execute_sql_error [OF this, of name] show False by simp
    next
      assume n: "name = ''cache_set''"
      from r have "call_cache_set L arguments w = (Inl (ValueError (''Unknown tool: '' @ name)), w')"
        unfolding n by (simp only: dispatch)
      from call_cache_set_error [OF this, of name] show False by simp
    next
      assume n: "name = ''cache_get''"
      from r have "call_cache_get L arguments w = (Inl (ValueError (''Unknown tool: '' @ name)), w')"
        unfolding n by (simp only: dispatch)
      from call_cache_get_error [OF this, of name] show False by simp
    next
      assume n: "name = ''list_directory''"
      from r have "call_list_directory L arguments w = (Inl (ValueError (''Unknown tool: '' @ name)), w')"
        unfolding n by (simp only: dispatch)
      from call_list_directory_error [OF this, of name] show False by simp
    next
      assume n: "name = ''analyze_data''"
      from r have "call_analyze_data L arguments w = (Inl (ValueError (''Unknown tool: '' @ name)), w')"
        unfolding n by (simp only: dispatch)
      from call_analyze_data_error [OF this, of name] show False by simp
    qed
  qed
next
  assume "name \<notin> set (map tool_name handle_list_tools)"
  then have "handle_call_tool L name arguments w = (Inl (ValueError (''Unknown tool: '' @ name)), w)"
    by (rule dispatch_unknown)
  then show "\<exists>w'. handle_call_tool L name arguments w = (Inl (ValueError (''Unknown tool: '' @ name)), w')"
    by (rule exI)
qed

theorem unknown_tool_iff_witness:
  "''nonexistent_tool'' \<notin> set (map tool_name handle_list_tools)
   \<and> (\<exists>w'. handle_call_tool demo_libs ''nonexistent_tool'' Map.empty demo_world
            = (Inl (ValueError ''Unknown tool: nonexistent_tool''), w'))"
proof -
  have "''nonexistent_tool'' \<notin> set (map tool_name handle_list_tools)"
    by (simp add: tool_names)
  with unknown_tool_iff [of demo_libs "''nonexistent_tool''" Map.empty demo_world]
  show ?thesis by simp
qed

theorem registered_tool_hard_error_counterexample:
  "''list_directory'' \<in> set (map tool_name handle_list_tools)
   \<and> fst (handle_call_tool demo_libs ''list_directory'' [''path'' \<mapsto> JStr ''notes.txt''] demo_world)
       = Inl (NotADirectoryError ''/app/data/notes.txt'')
   \<and> ''cache_get'' \<in> set (map tool_name handle_list_tools)
   \<and> fst (handle_call_tool demo_libs ''cache_get'' Map.empty demo_world) = Inl (KeyError ''key'')"
  by (simp add: tool_names handle_call_tool_def call_cache_get_def call_list_directory_def
        joinpath_def Path_def DATA_DIR_def path_exists_def os_stat_def has_nul_def resolve_def
        fs_lookup_def demo_world_def demo_fs_def iterdir_def path_str_def)

section \<open>An analysis type outside the four\<close>

lemma analyze_unmatched:
  assumes "t \<notin> {''summary'', ''head'', ''info'', ''describe''}"
  shows "\<exists>e. analyze L fs cwd file_path full_path (JStr t) = Inl e"
    and "os_stat fs cwd full_path = Inr ent \<Longrightarrow> read_csv L (path_str full_path) ent = Inr df
         \<Longrightarrow> analyze L fs cwd file_path full_path (JStr t) = Inl unbound_result"
  using assms by (auto simp: analyze_def lib_def split: sum.splits)

text \<open>
  C9. For a path that exists under the sandbox root and an \<^verbatim>\<open>analysis_type\<close> string
  that is none of \<^verbatim>\<open>summary\<close>, \<^verbatim>\<open>head\<close>, \<^verbatim>\<open>info\<close> and \<^verbatim>\<open>describe\<close>,
  \<^verbatim>\<open>analyze_data\<close> returns one text block that starts with "Error analyzing data: ";
  it raises nothing and returns no analysis. When the file parses, the message is that
  of the UnboundLocalError for the \<^verbatim>\<open>result\<close> that no branch assigned.
\<close>

theorem analyze_data_unknown_type:
  assumes "arguments ''file_path'' = Some (JStr file_path)"
    and "arguments ''analysis_type'' = Some (JStr t)"
    and "t \<notin> {''summary'', ''head'', ''info'', ''describe''}"
    and "path_exists (filesystem w) (workdir w) (joinpath DATA_DIR file_path)"
  shows "(\<exists>m. handle_call_tool L ''analyze_data'' arguments w
               = (Inr [TextContent ''text'' (''Error analyzing data: '' @ m)], w))
         \<and> (\<forall>ent df. os_stat (filesystem w) (workdir w) (joinpath DATA_DIR file_path) = Inr ent
                \<and> read_csv L (path_str (joinpath DATA_DIR file_path)) ent = Inr df
              \<longrightarrow> handle_call_tool L ''analyze_data'' arguments w
                  = (Inr [TextContent ''text'' (''Error analyzing data: '' @ exn_str unbound_result)], w))"
proof -
  let ?full = "joinpath DATA_DIR file_path"
  let ?a = "analyze L (filesystem w) (workdir w) file_path ?full (JStr t)"
  have run: "handle_call_tool L ''analyze_data'' arguments w
      = (case ?a of
           Inr result \<Rightarrow> (Inr [TextContent ''text'' result], w)
         | Inl e \<Rightarrow> (Inr [TextContent ''text'' (''Error analyzing data: '' @ exn_str e)], w))"
    using assms(1,2,4) by (simp add: dispatch call_analyze_data_def)
  from analyze_unmatched(1) [OF assms(3)] obtain e where e: "?a = Inl e" by blast
  have first: "\<exists>m. handle_call_tool L ''analyze_data'' arguments w
               = (Inr [TextContent ''text'' (''Error analyzing data: '' @ m)], w)"
    unfolding run e by simp
  have second: "handle_call_tool L ''analyze_data'' arguments w
                  = (Inr [TextContent ''text'' (''Error analyzing data: '' @ exn_str unbound_result)], w)"
    if "os_stat (filesystem w) (workdir w) ?full = Inr ent"
      and "read_csv L (path_str ?full) ent = Inr df" for ent df
    unfolding run using analyze_unmatched(2) [OF assms(3) that] by simp
  from first second show ?thesis by blast
qed

theorem analyze_data_unknown_type_witness:
  "[''file_path'' \<mapsto> JStr ''sub/t.csv'', ''analysis_type'' \<mapsto> JStr ''tail''] ''file_path''
      = Some (JStr ''sub/t.csv'')
   \<and> [''file_path'' \<mapsto> JStr ''sub/t.csv'', ''analysis_type'' \<mapsto> JStr ''tail''] ''analysis_type''
      = Some (JStr ''tail'')
   \<and> ''tail'' \<notin> {''summary'', ''head'', ''info'', ''describe''}
   \<and> path_exists (filesystem demo_world) (workdir demo_world) (joinpath DATA_DIR ''sub/t.csv'')
   \<and> handle_call_tool demo_libs ''analyze_data''
         [''file_path'' \<mapsto> JStr ''sub/t.csv'', ''analysis_type'' \<mapsto> JStr ''tail''] demo_world
       = (Inr [TextContent ''text'' (''Error analyzing data: '' @ exn_str unbound_result)], demo_world)"
proof -
  let ?args = "[''file_path'' \<mapsto> JStr ''sub/t.csv'', ''analysis_type'' \<mapsto> JStr ''tail'']"
  have a1: "?args ''file_path'' = Some (JStr ''sub/t.csv'')" by simp
  have a2: "?args ''analysis_type'' = Some (JStr ''tail'')" by simp
  have a3: "''tail'' \<notin> {''summary'', ''head'', ''info'', ''describe''}" by simp
  have st: "os_stat (filesystem demo_world) (workdir demo_world) (joinpath DATA_DIR ''sub/t.csv'')
              = Inr (FileN (Text (''a,b'' @ [CHR 0x0D, CHR 0x0A] @ ''1,2'')))"
    by (simp add: demo_world_def demo_fs_def os_stat_def has_nul_def resolve_def joinpath_def
          DATA_DIR_def Path_def fs_lookup_def)
  then have a4: "path_exists (filesystem demo_world) (workdir demo_world) (joinpath DATA_DIR ''sub/t.csv'')"
    by (simp add: path_exists_def)
  have csv: "read_csv demo_libs (path_str (joinpath DATA_DIR ''sub/t.csv''))
               (FileN (Text (''a,b'' @ [CHR 0x0D, CHR 0x0A] @ ''1,2'')))
             = Inr (map (split_on CHR '','') (split_on CHR 0x0A (''a,b'' @ [CHR 0x0D, CHR 0x0A] @ ''1,2'')))"
    by (simp add: demo_libs_def demo_read_csv_def)
  from analyze_data_unknown_type [of ?args "''sub/t.csv''" "''tail''" demo_world demo_libs,
        OF a1 a2 a3 a4] st csv
  have "handle_call_tool demo_libs ''analyze_data'' ?args demo_world
       = (Inr [TextContent ''text'' (''Error analyzing data: '' @ exn_str unbound_result)], demo_world)"
    by blast
  with a1 a2 a3 a4 show ?thesis by blast
qed

section \<open>Reading the cache\<close>

text \<open>
  C7, as the code has it. When the cache client is there and answers the lookup of the
  key \<open>k\<close>, \<^verbatim>\<open>cache_get\<close> returns one text block and changes nothing: "Cache value
  for 'k': v" when the cache holds \<open>v\<close>, and "Cache key 'k' not found" when it holds
  nothing, which is no error. An exception of the cache client is not caught: in the
  counterexample \<^verbatim>\<open>redis_client\<close> is still None, as it is until
  \<^verbatim>\<open>init_connections\<close> has run, and the call raises AttributeError.
\<close>

theorem cache_get_when_cache_answers:
  assumes "arguments ''key'' = Some (JStr k)"
    and "redis_client w = Some r"
    and "redis_get L r (JStr k) = Inr v"
  shows "handle_call_tool L ''cache_get'' arguments w =
           (Inr [TextContent ''text''
                   (case v of
                      None \<Rightarrow> ''Cache key '' @ sq @ k @ sq @ '' not found''
                    | Some x \<Rightarrow> ''Cache value for '' @ sq @ k @ sq @ '': '' @ x)], w)"
  using assms by (cases v) (simp_all add: dispatch call_cache_get_def py_str_def)

theorem cache_get_when_cache_answers_witness:
  "[''key'' \<mapsto> JStr ''k''] ''key'' = Some (JStr ''k'')
   \<and> redis_client demo_world = Some [(''k'', ''v'')]
   \<and> redis_get demo_libs [(''k'', ''v'')] (JStr ''k'') = Inr (Some ''v'')
   \<and> handle_call_tool demo_libs ''cache_get'' [''key'' \<mapsto> JStr ''k''] demo_world =
        (Inr [TextContent ''text'' (''Cache value for '' @ sq @ ''k'' @ sq @ '': '' @ ''v'')], demo_world)"
proof -
  have a1: "[''key'' \<mapsto> JStr ''k''] ''key'' = Some (JStr ''k'')" by simp
  have a2: "redis_client demo_world = Some [(''k'', ''v'')]" by (simp add: demo_world_def)
  have a3: "redis_get demo_libs [(''k'', ''v'')] (JStr ''k'') = Inr (Some ''v'')"
    by (simp add: demo_libs_def demo_get_def)
  from cache_get_when_cache_answers
         [of "[''key'' \<mapsto> JStr ''k'']" "''k''" demo_world "[(''k'', ''v'')]" demo_libs "Some ''v''",
          OF a1 a2 a3] a1 a2 a3
  show ?thesis by simp
qed

theorem cache_get_fails_counterexample:
  "fst (handle_call_tool demo_libs ''cache_get'' [''key'' \<mapsto> JStr ''k'']
          (demo_world\<lparr>redis_client := None\<rparr>))
     = Inl (AttributeError (sq @ ''NoneType'' @ sq @ '' object has no attribute '' @ sq @ ''get'' @ sq))"
  by (simp add: dispatch call_cache_get_def no_client_def)

section \<open>Executing SQL\<close>

lemma dict_of_keys_aux:
  "fst ` set (fold (\<lambda>(k, v). AList.update k v) kvs acc) = fst ` set kvs \<union> fst ` set acc"
proof (induction kvs arbitrary: acc)
  case Nil
  show ?case by simp
next
  case (Cons kv kvs)
  obtain k v where kv: "kv = (k, v)" by (cases kv)
  have "fst ` set (fold (\<lambda>(k, v). AList.update k v) (kv # kvs) acc)
          = fst ` set kvs \<union> fst ` set (AList.update k v acc)"
    by (simp add: kv Cons.IH)
  also have "\<dots> = fst ` set kvs \<union> ({k} \<union> fst ` set acc)"
    by (simp only: dom_update)
  also have "\<dots> = fst ` set (kv # kvs) \<union> fst ` set acc"
    by (simp add: kv)
  finally show ?case .
qed

lemma dict_of_keys: "fst ` set (dict_of kvs) = fst ` set kvs"
  by (simp add: dict_of_def dict_of_keys_aux)

lemma row_dict_keys:
  assumes "length row = length cols"
  shows "object_keys (row_dict cols row) = set cols"
proof -
  have "fst ` set (map (\<lambda>(k, v). (k, to_json v)) (dict_of (zip cols row)))
          = fst ` set (dict_of (zip cols row))"
    by force
  also have "\<dots> = fst ` set (zip cols row)" by (rule dict_of_keys)
  also have "\<dots> = set cols" using assms by (metis map_fst_zip set_map)
  finally show ?thesis by (simp add: row_dict_def)
qed

lemma sql_parameters_default: "arguments ''parameters'' = None \<Longrightarrow> sql_parameters arguments = JArr []"
  by (simp add: sql_parameters_def)

lemma demo_select_users:
  "pg_execute demo_libs (database demo_world) (JStr ''SELECT * FROM users LIMIT 100'') (JArr [])
     = Inr (\<lparr>cur_description = Some [''n''], cur_rows = [[SInt 1], [SInt 2]], cur_rowcount = 2\<rparr>,
            database demo_world)"
  by (simp add: demo_libs_def demo_world_def demo_execute_def demo_select_def introspection_sql_def
        nl_def sq_def lower_def lower_char_def suffix_def)

text \<open>
  C5. For a call of \<^verbatim>\<open>execute_sql\<close> whose connection and statement succeed: the
  parameters passed to the statement are the empty list when the argument is absent.
  When the statement has a result set (a non-empty \<^verbatim>\<open>cur.description\<close>), the text is
  the JSON array of one object for each row, the keys of each object are the columns of
  the statement, and the database is left as it was. Otherwise the transaction is
  committed and the text reports \<^verbatim>\<open>cur.rowcount\<close>.
\<close>

theorem execute_sql_result:
  assumes "arguments ''query'' = Some query"
    and "pg_connect L (database w) = None"
    and "pg_execute L (database w) query (sql_parameters arguments) = Inr (cur, d')"
  shows "(arguments ''parameters'' = None \<longrightarrow> sql_parameters arguments = JArr [])
    \<and> (\<forall>cols. cur_description cur = Some cols \<and> cols \<noteq> [] \<longrightarrow>
          handle_call_tool L ''execute_sql'' arguments w
            = (Inr [TextContent ''text'' (json_dumps L (JArr (map (row_dict cols) (cur_rows cur))))], w)
          \<and> (\<forall>row \<in> set (cur_rows cur).
                length row = length cols \<longrightarrow> object_keys (row_dict cols row) = set cols))
    \<and> (\<forall>d''. (cur_description cur = None \<or> cur_description cur = Some [])
               \<and> pg_commit L d' = Inr d'' \<longrightarrow>
          handle_call_tool L ''execute_sql'' arguments w
            = (Inr [TextContent ''text''
                      (''Query executed successfully. Rows affected: '' @ str_int (cur_rowcount cur))],
               w\<lparr>database := d''\<rparr>))"
proof (intro conjI allI impI ballI)
  assume "arguments ''parameters'' = None"
  then show "sql_parameters arguments = JArr []" by (rule sql_parameters_default)
next
  fix cols :: "string list"
  assume "cur_description cur = Some cols \<and> cols \<noteq> []"
  with assms show "handle_call_tool L ''execute_sql'' arguments w
            = (Inr [TextContent ''text'' (json_dumps L (JArr (map (row_dict cols) (cur_rows cur))))], w)"
    by (simp add: dispatch call_execute_sql_def sql_parameters_def fetchall_def rows_json_def)
next
  fix cols :: "string list" and row :: "sqlval list"
  assume "length row = length cols"
  then show "object_keys (row_dict cols row) = set cols" by (rule row_dict_keys)
next
  fix d''
  assume "(cur_description cur = None \<or> cur_description cur = Some []) \<and> pg_commit L d' = Inr d''"
  with assms show "handle_call_tool L ''execute_sql'' arguments w
            = (Inr [TextContent ''text''
                      (''Query executed successfully. Rows affected: '' @ str_int (cur_rowcount cur))],
               w\<lparr>database := d''\<rparr>)"
    by (auto simp: dispatch call_execute_sql_def sql_parameters_def)
qed

theorem execute_sql_result_witness:
  "[''query'' \<mapsto> JStr ''SELECT * FROM users LIMIT 100''] ''query''
      = Some (JStr ''SELECT * FROM users LIMIT 100'')
   \<and> pg_connect demo_libs (database demo_world) = None
   \<and> pg_execute demo_libs (database demo_world) (JStr ''SELECT * FROM users LIMIT 100'')
         (sql_parameters [''query'' \<mapsto> JStr ''SELECT * FROM users LIMIT 100''])
       = Inr (\<lparr>cur_description = Some [''n''], cur_rows = [[SInt 1], [SInt 2]], cur_rowcount = 2\<rparr>,
              database demo_world)
   \<and> handle_call_tool demo_libs ''execute_sql''
         [''query'' \<mapsto> JStr ''SELECT * FROM users LIMIT 100''] demo_world
       = (Inr [TextContent ''text''
                 (json_dumps demo_libs (JArr (map (row_dict [''n'']) [[SInt 1], [SInt 2]])))],
          demo_world)
   \<and> object_keys (row_dict [''n''] [SInt 1]) = set [''n'']"
proof -
  let ?args = "[''query'' \<mapsto> JStr ''SELECT * FROM users LIMIT 100'']"
  let ?cur = "\<lparr>cur_description = Some [''n''], cur_rows = [[SInt 1], [SInt 2]], cur_rowcount = 2\<rparr>"
  have a1: "?args ''query'' = Some (JStr ''SELECT * FROM users LIMIT 100'')" by simp
  have a2: "pg_connect demo_libs (database demo_world) = None"
    by (simp add: demo_libs_def demo_world_def)
  have a3: "pg_execute demo_libs (database demo_world) (JStr ''SELECT * FROM users LIMIT 100'')
              (sql_parameters ?args) = Inr (?cur, database demo_world)"
    using demo_select_users by (simp add: sql_parameters_def)
  note r = execute_sql_result
             [of ?args "JStr ''SELECT * FROM users LIMIT 100''" demo_libs demo_world ?cur
                 "database demo_world", OF a1 a2 a3]
  from r have "\<forall>cols. cur_description ?cur = Some cols \<and> cols \<noteq> [] \<longrightarrow>
          handle_call_tool demo_libs ''execute_sql'' ?args demo_world
            = (Inr [TextContent ''text'' (json_dumps demo_libs (JArr (map (row_dict cols) (cur_rows ?cur))))],
               demo_world)
          \<and> (\<forall>row \<in> set (cur_rows ?cur).
                length row = length cols \<longrightarrow> object_keys (row_dict cols row) = set cols)"
    by blast
  then have "handle_call_tool demo_libs ''execute_sql'' ?args demo_world
            = (Inr [TextContent ''text'' (json_dumps demo_libs (JArr (map (row_dict [''n'']) [[SInt 1], [SInt 2]])))],
               demo_world)
          \<and> object_keys (row_dict [''n''] [SInt 1]) = set [''n'']"
    by simp
  with a1 a2 a3 show ?thesis by blast
qed

section \<open>A path written into a URI is read back\<close>

lemma split_on_nonempty [simp]: "split_on d s \<noteq> []"
  by (induction s) (auto split: list.splits)







lemma DATA_DIR_absolute [simp]: "absolute DATA_DIR"
  by (simp add: DATA_DIR_def Path_def)

lemma DATA_DIR_parts [simp]: "parts DATA_DIR = [''app'', ''data'']"
  by (simp add: DATA_DIR_def Path_def)

lemma joinpath_absolute [simp]: "absolute (joinpath DATA_DIR p)"
  by (simp add: joinpath_def Let_def)



section \<open>The resource catalogue\<close>


lemma table_resource_uri [simp]:
  "res_uri (table_resource L tn ty) = ''db://table/'' @ url_path L tn"
  by (simp add: table_resource_def)

lemma file_resource_uri [simp]:
  "res_uri (file_resource L p) = ''file://'' @ url_path L (path_str p)"
  by (simp add: file_resource_def)

lemma add_table_resources_db:
  "add_table_resources L acc rows = (rs, e) \<Longrightarrow>
   \<exists>ts. rs = acc @ ts \<and> (\<forall>r \<in> set ts. prefix ''db://table/'' (res_uri r))"
proof (induction rows arbitrary: acc)
  case Nil
  then show ?case by simp
next
  case (Cons row rest)
  show ?case
  proof (cases "\<exists>tn ty. row = [SStr tn, SStr ty]")
    case True
    then obtain tn ty where row: "row = [SStr tn, SStr ty]" by blast
    with Cons.prems have "add_table_resources L (acc @ [table_resource L tn ty]) rest = (rs, e)"
      by simp
    from Cons.IH [OF this] obtain ts where
      ts: "rs = (acc @ [table_resource L tn ty]) @ ts"
          "\<forall>r \<in> set ts. prefix ''db://table/'' (res_uri r)" by blast
    then have "rs = acc @ (table_resource L tn ty # ts)
       \<and> (\<forall>r \<in> set (table_resource L tn ty # ts). prefix ''db://table/'' (res_uri r))"
      by simp
    then show ?thesis by blast
  next
    case False
    with Cons.prems have "rs = acc"
      by (auto split: list.splits sqlval.splits)
    then show ?thesis by simp
  qed
qed

lemma list_table_resources_db:
  "list_table_resources L d acc = (rs, e) \<Longrightarrow>
   \<exists>ts. rs = acc @ ts \<and> (\<forall>r \<in> set ts. prefix ''db://table/'' (res_uri r))"
  by (auto simp: list_table_resources_def split: option.splits sum.splits prod.splits
           dest: add_table_resources_db)


lemma db_uri_not_file: "prefix ''db://table/'' u \<Longrightarrow> \<not> prefix ''file://'' u"
  by (auto simp: prefix_def)


lemma add_table_resources_all:
  "add_table_resources L acc (map (\<lambda>t. [SStr (fst t), SStr (snd t)]) tabs)
     = (acc @ map (\<lambda>t. table_resource L (fst t) (snd t)) tabs, None)"
  by (induction tabs arbitrary: acc) simp_all

lemma list_table_resources_fails:
  "introspection_fails L d \<Longrightarrow> \<exists>e. list_table_resources L d acc = (acc, Some e)"
  by (auto simp: introspection_fails_def list_table_resources_def fetchall_def
           split: option.splits sum.splits prod.splits)

lemma handle_list_resources_eq:
  "handle_list_resources L w
     = (Inr (fst (list_table_resources L (database w)
                    (list_file_resources L (filesystem w) (workdir w)))),
        (case snd (list_table_resources L (database w)
                     (list_file_resources L (filesystem w) (workdir w))) of
           None \<Rightarrow> w
         | Some e \<Rightarrow>
             w\<lparr>warnings := warnings w @ [''Could not list database tables: '' @ exn_str e]\<rparr>))"
  by (cases "list_table_resources L (database w) (list_file_resources L (filesystem w) (workdir w))")
     (auto simp: handle_list_resources_def split: option.splits)

text \<open>
  C10. When the sandbox root \<^verbatim>\<open>/app/data\<close> does not exist, \<^verbatim>\<open>list_resources\<close>
  does not fail and the enumeration of files is skipped without a trace: the catalogue
  is what the \<^verbatim>\<open>try\<close> block over the database appends to the empty list, every
  descriptor of it has a \<^verbatim>\<open>db://table/\<close> URI and none a \<^verbatim>\<open>file://\<close> one, and the world
  changes by nothing but the warning of a failed block. When the introspection answers
  with rows of a table name and a table type, the catalogue is exactly one descriptor for
  each row, in their order, and the world is as it was; when the introspection fails,
  the catalogue is empty and one warning is logged.
\<close>

theorem list_resources_without_data_dir:
  assumes "\<not> path_exists (filesystem w) (workdir w) DATA_DIR"
  shows "handle_list_resources L w
           = (Inr (fst (list_table_resources L (database w) [])),
              (case snd (list_table_resources L (database w) []) of
                 None \<Rightarrow> w
               | Some e \<Rightarrow>
                   w\<lparr>warnings := warnings w @ [''Could not list database tables: '' @ exn_str e]\<rparr>))
       \<and> (\<forall>r \<in> set (fst (list_table_resources L (database w) [])).
             prefix ''db://table/'' (res_uri r) \<and> \<not> prefix ''file://'' (res_uri r))
       \<and> (\<forall>cur d' cols tabs.
             pg_connect L (database w) = None
             \<and> pg_execute L (database w) (JStr introspection_sql) JNull = Inr (cur, d')
             \<and> cur_description cur = Some cols
             \<and> cur_rows cur = map (\<lambda>t. [SStr (fst t), SStr (snd t)]) tabs
           \<longrightarrow> handle_list_resources L w
               = (Inr (map (\<lambda>t. \<lparr>res_uri = ''db://table/'' @ url_path L (fst t),
                                  res_name = fst t,
                                  res_description = ''Database '' @ lower (snd t) @ '': '' @ fst t,
                                  res_mimeType = ''application/x-sql''\<rparr>) tabs), w))
       \<and> (introspection_fails L (database w)
           \<longrightarrow> (\<exists>m. handle_list_resources L w
                      = (Inr [], w\<lparr>warnings := warnings w @ [''Could not list database tables: '' @ m]\<rparr>)))"
proof -
  from assms have nofiles: "list_file_resources L (filesystem w) (workdir w) = []"
    by (simp add: list_file_resources_def)
  have first: "handle_list_resources L w
           = (Inr (fst (list_table_resources L (database w) [])),
              (case snd (list_table_resources L (database w) []) of
                 None \<Rightarrow> w
               | Some e \<Rightarrow>
                   w\<lparr>warnings := warnings w @ [''Could not list database tables: '' @ exn_str e]\<rparr>))"
    using handle_list_resources_eq [of L w] by (simp only: nofiles)
  have second: "\<forall>r \<in> set (fst (list_table_resources L (database w) [])).
             prefix ''db://table/'' (res_uri r) \<and> \<not> prefix ''file://'' (res_uri r)"
  proof -
    obtain rs e where lt: "list_table_resources L (database w) [] = (rs, e)"
      by (cases "list_table_resources L (database w) []")
    from list_table_resources_db [OF lt] show ?thesis
      by (auto simp: lt dest: db_uri_not_file)
  qed
  have third: "handle_list_resources L w
               = (Inr (map (\<lambda>t. \<lparr>res_uri = ''db://table/'' @ url_path L (fst t),
                                  res_name = fst t,
                                  res_description = ''Database '' @ lower (snd t) @ '': '' @ fst t,
                                  res_mimeType = ''application/x-sql''\<rparr>) tabs), w)"
    if "pg_connect L (database w) = None"
      and "pg_execute L (database w) (JStr introspection_sql) JNull = Inr (cur, d')"
      and "cur_description cur = Some cols"
      and "cur_rows cur = map (\<lambda>t. [SStr (fst t), SStr (snd t)]) tabs"
    for cur d' cols tabs
  proof -
    from that have "list_table_resources L (database w) []
                      = (map (\<lambda>t. table_resource L (fst t) (snd t)) tabs, None)"
      by (simp add: list_table_resources_def fetchall_def add_table_resources_all)
    then show ?thesis unfolding first by (simp add: table_resource_def)
  qed
  have fourth: "\<exists>m. handle_list_resources L w
                      = (Inr [], w\<lparr>warnings := warnings w @ [''Could not list database tables: '' @ m]\<rparr>)"
    if "introspection_fails L (database w)"
  proof -
    from list_table_resources_fails [OF that, of "[]"] obtain e
      where "list_table_resources L (database w) [] = ([], Some e)" ..
    then have "handle_list_resources L w
                 = (Inr [], w\<lparr>warnings := warnings w
                                 @ [''Could not list database tables: '' @ exn_str e]\<rparr>)"
      unfolding first by simp
    then show ?thesis by (rule exI)
  qed
  from first second third fourth show ?thesis by blast
qed

lemma demo_introspection:
  "pg_execute demo_libs [(''users'', [1, 2]), (''Orders'', [7])] (JStr introspection_sql) JNull
     = Inr (\<lparr>cur_description = Some [''table_name'', ''table_type''],
             cur_rows = map (\<lambda>t. [SStr (fst t), SStr (snd t)])
                          [(''users'', ''BASE TABLE''), (''Orders'', ''BASE TABLE'')],
             cur_rowcount = 2\<rparr>,
            [(''users'', [1, 2]), (''Orders'', [7])])"
  by (simp add: demo_libs_def demo_execute_def)

lemma lower_base_table: "lower ''BASE TABLE'' = ''base table''"
  by code_simp

theorem list_resources_without_data_dir_witness:
  "\<not> path_exists (filesystem (demo_world\<lparr>filesystem := [([''app''], DirN)]\<rparr>))
        (workdir (demo_world\<lparr>filesystem := [([''app''], DirN)]\<rparr>)) DATA_DIR
   \<and> handle_list_resources demo_libs (demo_world\<lparr>filesystem := [([''app''], DirN)]\<rparr>)
       = (Inr [\<lparr>res_uri = ''db://table/users'', res_name = ''users'',
                 res_description = ''Database base table: users'',
                 res_mimeType = ''application/x-sql''\<rparr>,
               \<lparr>res_uri = ''db://table/Orders'', res_name = ''Orders'',
                 res_description = ''Database base table: Orders'',
                 res_mimeType = ''application/x-sql''\<rparr>],
          demo_world\<lparr>filesystem := [([''app''], DirN)]\<rparr>)"
proof -
  let ?w = "demo_world\<lparr>filesystem := [([''app''], DirN)]\<rparr>"
  let ?cur = "\<lparr>cur_description = Some [''table_name'', ''table_type''],
             cur_rows = map (\<lambda>t. [SStr (fst t), SStr (snd t)])
                          [(''users'', ''BASE TABLE''), (''Orders'', ''BASE TABLE'')],
             cur_rowcount = 2\<rparr>"
  have h: "\<not> path_exists (filesystem ?w) (workdir ?w) DATA_DIR"
    by (simp add: demo_world_def path_exists_def os_stat_def has_nul_def resolve_def
          DATA_DIR_def Path_def fs_lookup_def)
  have db: "database ?w = [(''users'', [1, 2]), (''Orders'', [7])]"
    by (simp add: demo_world_def)
  have c: "pg_connect demo_libs (database ?w) = None"
    by (simp add: db demo_libs_def)
  have x: "pg_execute demo_libs (database ?w) (JStr introspection_sql) JNull
             = Inr (?cur, [(''users'', [1, 2]), (''Orders'', [7])])"
    unfolding db by (rule demo_introspection)
  have u: "url_path demo_libs ''users'' = ''users''" "url_path demo_libs ''Orders'' = ''Orders''"
    by (simp_all add: demo_libs_def demo_url_path_def)
  from list_resources_without_data_dir [OF h, of demo_libs]
  have "\<forall>cur d' cols tabs.
             pg_connect demo_libs (database ?w) = None
             \<and> pg_execute demo_libs (database ?w) (JStr introspection_sql) JNull = Inr (cur, d')
             \<and> cur_description cur = Some cols
             \<and> cur_rows cur = map (\<lambda>t. [SStr (fst t), SStr (snd t)]) tabs
           \<longrightarrow> handle_list_resources demo_libs ?w
               = (Inr (map (\<lambda>t. \<lparr>res_uri = ''db://table/'' @ url_path demo_libs (fst t),
                                  res_name = fst t,
                                  res_description = ''Database '' @ lower (snd t) @ '': '' @ fst t,
                                  res_mimeType = ''application/x-sql''\<rparr>) tabs), ?w)"
    by blast
  from this [rule_format, of ?cur "[(''users'', [1, 2]), (''Orders'', [7])]"
               "[''table_name'', ''table_type'']"
               "[(''users'', ''BASE TABLE''), (''Orders'', ''BASE TABLE'')]"] c x
  have "handle_list_resources demo_libs ?w
               = (Inr (map (\<lambda>t. \<lparr>res_uri = ''db://table/'' @ url_path demo_libs (fst t),
                                  res_name = fst t,
                                  res_description = ''Database '' @ lower (snd t) @ '': '' @ fst t,
                                  res_mimeType = ''application/x-sql''\<rparr>)
                         [(''users'', ''BASE TABLE''), (''Orders'', ''BASE TABLE'')]), ?w)"
    by simp
  then have "handle_list_resources demo_libs ?w
       = (Inr [\<lparr>res_uri = ''db://table/users'', res_name = ''users'',
                 res_description = ''Database base table: users'',
                 res_mimeType = ''application/x-sql''\<rparr>,
               \<lparr>res_uri = ''db://table/Orders'', res_name = ''Orders'',
                 res_description = ''Database base table: Orders'',
                 res_mimeType = ''application/x-sql''\<rparr>], ?w)"
    by (simp add: u lower_base_table)
  with h show ?thesis by blast
qed



section \<open>Writing a file and reading it back\<close>


























section \<open>Reading what the catalogue lists\<close>

lemma demo_url [simp]: "url_path demo_libs s = demo_url_path s"
  by (simp add: demo_libs_def)













end
